theory Spec2Isabelle
  imports Main "HOL-Library.Sublist"
begin

section \<open>JavaScript values used by the scripts\<close>

text \<open>
  Strings are modelled as \<open>string\<close>. \<open>s.endsWith(t)\<close> and \<open>s.includes(t)\<close> are the
  suffix and the contiguous-substring tests; \<open>s.toLowerCase()\<close> is modelled on the ASCII
  letters \<open>A\<close>..\<open>Z\<close> and leaves every other character alone.
\<close>

definition endsWith :: "string \<Rightarrow> string \<Rightarrow> bool" where
  "endsWith s t = suffix t s"

definition str_includes :: "string \<Rightarrow> string \<Rightarrow> bool" where
  "str_includes s t = sublist t s"

definition toLowerChar :: "char \<Rightarrow> char" where
  "toLowerChar c =
     (let n = (of_char c :: nat) in if 65 \<le> n \<and> n \<le> 90 then char_of (n + 32) else c)"

definition toLowerCase :: "string \<Rightarrow> string" where
  "toLowerCase s = map toLowerChar s"

text \<open>\<open>s.trim()\<close>, on the ASCII white space characters.\<close>

definition isSpace :: "char \<Rightarrow> bool" where
  "isSpace c = (c \<in> set [CHR '' '', CHR 0x09, CHR 0x0A, CHR 0x0B, CHR 0x0C, CHR 0x0D])"

definition trim :: "string \<Rightarrow> string" where
  "trim s = rev (dropWhile isSpace (rev (dropWhile isSpace s)))"

text \<open>\<open>arr.includes(x)\<close> on an array of strings.\<close>

definition arr_includes :: "string list \<Rightarrow> string \<Rightarrow> bool" where
  "arr_includes xs x = (x \<in> set xs)"

text \<open>
  A JavaScript object with non-numeric string keys, as the list \<open>Object.entries\<close> returns:
  keys in the order of their first assignment. \<open>obj[k] = v\<close> replaces the value in place
  when \<open>k\<close> is already a key and appends the pair otherwise.
\<close>

type_synonym 'v js_object = "(string \<times> 'v) list"

fun obj_set :: "'v js_object \<Rightarrow> string \<Rightarrow> 'v \<Rightarrow> 'v js_object" where
  "obj_set [] k v = [(k, v)]"
| "obj_set ((k', v') # kvs) k v =
     (if k' = k then (k, v) # kvs else (k', v') # obj_set kvs k v)"

definition Object_keys :: "'v js_object \<Rightarrow> string list" where
  "Object_keys obj = map fst obj"

definition Object_entries :: "'v js_object \<Rightarrow> (string \<times> 'v) list" where
  "Object_entries obj = obj"

definition obj_get :: "'v js_object \<Rightarrow> string \<Rightarrow> 'v option" where
  "obj_get obj k = map_of obj k"

text \<open>
  The errors the scripts can meet: the file-system ones of Node, \<open>TypeError\<close>, and the
  \<open>SyntaxError\<close> of a script whose text does not parse.
\<close>

datatype js_error = ENOTDIR | EISDIR | TypeError | SyntaxError

text \<open>
  How a Node process ends: \<open>process.exit(n)\<close> or falling off the end of the script
  (code 0), or an exception nobody caught, for which Node exits with code 1.
\<close>

datatype outcome = Exit nat | Uncaught js_error

fun exit_code :: "outcome \<Rightarrow> nat" where
  "exit_code (Exit n) = n"
| "exit_code (Uncaught e) = 1"

section \<open>The file system\<close>

text \<open>
  A directory is the list of its immediate children in the order \<open>fs.readdirSync\<close>
  enumerates them, each child a regular file (with its text) or a directory. For a child
  name \<open>f\<close>, \<open>path.basename(path.join(dir, f))\<close> is \<open>f\<close> itself, so the scanners below
  take the child name where the source takes the base name of the joined path. Symbolic
  links and directories that cannot be read are not modelled: in the model
  \<open>fs.statSync\<close> of a listed name and \<open>fs.readdirSync\<close> of a directory always return,
  while the scripts end with an exception on a dangling link or an unreadable directory.
\<close>

datatype node = File string | Dir "(string \<times> node) list"

type_synonym listing = "(string \<times> node) list"

definition readdirSync :: "listing \<Rightarrow> string list" where
  "readdirSync d = map fst d"

text \<open>
  \<open>path.join(d, f)\<close> of POSIX Node for a directory entry name \<open>f\<close> (not empty, without
  a separator, neither \<open>.\<close> nor \<open>..\<close>): the joined text is normalised, so the segments
  of \<open>d\<close> are read from the left, empty ones and \<open>.\<close> are dropped, \<open>..\<close> removes the
  segment before it (or stays, in a relative path with nothing to remove), and \<open>f\<close> comes
  last: \<open>./build\<close> and \<open>build/\<close> both give \<open>build/f\<close>, and \<open>.\<close> gives \<open>f\<close>.
\<close>

fun split_slash :: "string \<Rightarrow> string list" where
  "split_slash [] = [[]]"
| "split_slash (c # cs) =
     (if c = CHR ''/'' then [] # split_slash cs
      else (case split_slash cs of seg # segs \<Rightarrow> (c # seg) # segs | [] \<Rightarrow> [[c]]))"

definition isAbsolute :: "string \<Rightarrow> bool" where
  "isAbsolute d = (case d of [] \<Rightarrow> False | c # cs \<Rightarrow> c = CHR ''/'')"

definition normalize_step :: "bool \<Rightarrow> string list \<Rightarrow> string \<Rightarrow> string list" where
  "normalize_step allowAboveRoot res seg =
     (if seg = [] \<or> seg = ''.'' then res
      else if seg = ''..'' then
        (if res \<noteq> [] \<and> last res \<noteq> ''..'' then butlast res
         else if allowAboveRoot then res @ [''..''] else res)
      else res @ [seg])"

definition normalize_segments :: "string \<Rightarrow> string list" where
  "normalize_segments d = foldl (normalize_step (\<not> isAbsolute d)) [] (split_slash d)"

definition path_join :: "string \<Rightarrow> string \<Rightarrow> string" where
  "path_join d f =
     (if isAbsolute d then ''/'' else []) @
     concat (map (\<lambda>seg. seg @ ''/'') (normalize_segments d)) @ f"

text \<open>\<open>fs.statSync(path.join(dir, f)).isFile()\<close> for a name \<open>f\<close> listed in \<open>dir\<close>.\<close>

definition isFile :: "listing \<Rightarrow> string \<Rightarrow> bool" where
  "isFile d f = (case map_of d f of Some (File _) \<Rightarrow> True | _ \<Rightarrow> False)"

definition isDirectory :: "listing \<Rightarrow> string \<Rightarrow> bool" where
  "isDirectory d f = (case map_of d f of Some (Dir _) \<Rightarrow> True | _ \<Rightarrow> False)"

text \<open>
  \<open>fs.readdirSync(buildDir).map(f => path.join(buildDir, f)).filter(f =>
  fs.statSync(f).isDirectory())\<close>: the child directories, in enumeration order, each with
  its name and its own listing.
\<close>

fun dir_entries :: "listing \<Rightarrow> (string \<times> listing) list" where
  "dir_entries [] = []"
| "dir_entries ((f, Dir c) # rest) = (f, c) # dir_entries rest"
| "dir_entries ((f, File t) # rest) = dir_entries rest"

text \<open>
  One line of console output. The two lines the scanners print per directory are kept
  apart from every other line: \<open>Detected\<close> with the display name of the platform and the
  name of the directory, \<open>Unknown\<close> with the name of the directory. Pictographs are left
  out of the text.
\<close>

datatype console_line =
    Detected string string
  | Unknown string
  | Info string

fun is_Unknown :: "console_line \<Rightarrow> bool" where
  "is_Unknown (Unknown n) = True"
| "is_Unknown l = False"

section \<open>godot-export.js\<close>

record godot_platform =
  g_channel :: string
  g_files :: "string list"
  g_name :: string

definition godot_PLATFORMS :: "godot_platform js_object" where
  "godot_PLATFORMS =
     [(''windows'', \<lparr>g_channel = ''windows'', g_files = [''.exe''], g_name = ''Windows Desktop''\<rparr>),
      (''linux'', \<lparr>g_channel = ''linux'', g_files = [''''], g_name = ''Linux/X11''\<rparr>),
      (''macos'', \<lparr>g_channel = ''osx'', g_files = [''.app'', ''.zip''], g_name = ''macOS''\<rparr>),
      (''web'', \<lparr>g_channel = ''html5'', g_files = [''index.html''], g_name = ''Web (HTML5)''\<rparr>),
      (''android'', \<lparr>g_channel = ''android'', g_files = [''.apk'', ''.aab''], g_name = ''Android''\<rparr>)]"

text \<open>The \<open>.app\<close>/\<open>.zip\<close> block of \<open>detectPlatform\<close>: \<open>True\<close> when it returns \<open>'macos'\<close>.\<close>

definition godot_mac_block :: "string list \<Rightarrow> bool" where
  "godot_mac_block files =
     (if list_ex (\<lambda>f. endsWith f ''.app'') files \<or> list_ex (\<lambda>f. endsWith f ''.zip'') files
      then
        (case find (\<lambda>f. endsWith f ''.zip'') files of
           Some zipf \<Rightarrow>
             if str_includes zipf ''mac'' \<or> str_includes zipf ''osx'' then True
             else (case find (\<lambda>f. endsWith f ''.app'') files of Some app \<Rightarrow> True | None \<Rightarrow> False)
         | None \<Rightarrow>
             (case find (\<lambda>f. endsWith f ''.app'') files of Some app \<Rightarrow> True | None \<Rightarrow> False))
      else False)"

text \<open>
  \<open>detectPlatform(dir)\<close>, with the directory given by its listing; \<open>None\<close> is the
  \<open>null\<close> it returns when nothing matches.
\<close>

definition godot_detectPlatform :: "listing \<Rightarrow> string option" where
  "godot_detectPlatform dir =
     (let files = readdirSync dir in
      if arr_includes files ''index.html'' then Some ''web''
      else if list_ex (\<lambda>f. endsWith f ''.exe'') files then Some ''windows''
      else if godot_mac_block files then Some ''macos''
      else if list_ex (\<lambda>f. endsWith f ''.apk'' \<or> endsWith f ''.aab'') files then Some ''android''
      else
        (let executables = filter (\<lambda>f. \<not> str_includes f ''.'' \<and> isFile dir f) files in
         if length executables > 0 then Some ''linux'' else None))"

text \<open>
  \<open>checkCORS\<close>: \<open>fs.readFileSync\<close> on a directory named \<open>index.html\<close> throws
  \<open>EISDIR\<close>; otherwise the result and the lines printed.
\<close>

definition checkCORS :: "listing \<Rightarrow> js_error + (bool \<times> console_line list)" where
  "checkCORS dir =
     (case map_of dir ''index.html'' of
        None \<Rightarrow> Inr (False, [])
      | Some (Dir c) \<Rightarrow> Inl EISDIR
      | Some (File content) \<Rightarrow>
          (let hasCOI = str_includes content ''coi-serviceworker'' in
           Inr (hasCOI,
                if \<not> hasCOI
                then [Info ''   Web export missing CORS fix (coi-serviceworker.js)'',
                      Info ''   Get it from: https://github.com/gzuidhof/coi-serviceworker'']
                else [])))"

text \<open>The command line \<open>butler push "<dir>" "<target>:<channel>"\<close>.\<close>

definition quoted :: "string \<Rightarrow> string" where
  "quoted s = [CHR 0x22] @ s @ [CHR 0x22]"

definition butler_push :: "string \<Rightarrow> string \<Rightarrow> string \<Rightarrow> string" where
  "butler_push dir target channel =
     ''butler push '' @ quoted dir @ '' '' @ quoted (target @ '':'' @ channel)"

definition butler_status :: "string \<Rightarrow> string" where
  "butler_status target = ''butler status '' @ quoted target"

text \<open>
  The loop of \<open>scanBuildDir\<close> over the child directories, with the \<open>platforms\<close> object
  and the console output so far. \<open>PLATFORMS[platform].name\<close> throws \<open>TypeError\<close> for a
  key that is not in the table.
\<close>

fun godot_scan_loop ::
  "string \<Rightarrow> (string \<times> listing) list \<Rightarrow> string js_object \<Rightarrow> console_line list \<Rightarrow>
   js_error + (string js_object \<times> console_line list)" where
  "godot_scan_loop buildDir [] platforms out = Inr (platforms, out)"
| "godot_scan_loop buildDir ((f, contents) # rest) platforms out =
     (let entry = path_join buildDir f; name = toLowerCase f in
      case godot_detectPlatform contents of
        Some platform \<Rightarrow>
          (case obj_get godot_PLATFORMS platform of
             None \<Rightarrow> Inl TypeError
           | Some p \<Rightarrow>
               if platform = ''web'' then
                 (case checkCORS contents of
                    Inl e \<Rightarrow> Inl e
                  | Inr (hasCOI, printed) \<Rightarrow>
                      godot_scan_loop buildDir rest (obj_set platforms platform entry)
                        (out @ [Detected (g_name p) name] @ printed))
               else
                 godot_scan_loop buildDir rest (obj_set platforms platform entry)
                   (out @ [Detected (g_name p) name]))
      | None \<Rightarrow> godot_scan_loop buildDir rest platforms (out @ [Unknown name]))"

text \<open>
  \<open>scanBuildDir(buildDir)\<close>, where \<open>root\<close> is what the path \<open>buildDir\<close> names;
  \<open>fs.readdirSync\<close> throws \<open>ENOTDIR\<close> on a regular file.
\<close>

definition scanBuildDir ::
  "string \<Rightarrow> node \<Rightarrow> js_error + (string js_object \<times> console_line list)" where
  "scanBuildDir buildDir root =
     (case root of
        File t \<Rightarrow> Inl ENOTDIR
      | Dir children \<Rightarrow> godot_scan_loop buildDir (dir_entries children) [] [])"

text \<open>
  The loop of \<open>generateCommands\<close>. For a key of the table \<open>PLATFORMS[plat].channel\<close> is
  its channel; for a name that every object inherits (\<open>constructor\<close> and the like)
  \<open>PLATFORMS[plat]\<close> is a value without a \<open>channel\<close>, printed as \<open>undefined\<close>; for any
  other key \<open>PLATFORMS[plat]\<close> is \<open>undefined\<close> and reading its \<open>channel\<close> throws.
\<close>

definition Object_prototype_keys :: "string list" where
  "Object_prototype_keys =
     [''constructor'', ''__defineGetter__'', ''__defineSetter__'', ''hasOwnProperty'',
      ''__lookupGetter__'', ''__lookupSetter__'', ''isPrototypeOf'', ''propertyIsEnumerable'',
      ''toString'', ''valueOf'', ''__proto__'', ''toLocaleString'']"

fun godot_push_lines :: "(string \<times> string) list \<Rightarrow> string \<Rightarrow> js_error + string list" where
  "godot_push_lines [] target = Inr []"
| "godot_push_lines ((plat, dir) # rest) target =
     (case obj_get godot_PLATFORMS plat of
        None \<Rightarrow>
          if plat \<in> set Object_prototype_keys then
            (case godot_push_lines rest target of
               Inl e \<Rightarrow> Inl e
             | Inr ls \<Rightarrow> Inr (butler_push dir target ''undefined'' # ls))
          else Inl TypeError
      | Some p \<Rightarrow>
          (case godot_push_lines rest target of
             Inl e \<Rightarrow> Inl e
           | Inr ls \<Rightarrow> Inr (butler_push dir target (g_channel p) # ls)))"

definition godot_generateCommands :: "string js_object \<Rightarrow> string \<Rightarrow> js_error + console_line list" where
  "godot_generateCommands platforms target =
     (case godot_push_lines (Object_entries platforms) target of
        Inl e \<Rightarrow> Inl e
      | Inr ls \<Rightarrow>
          Inr ([Info ''Butler commands:''] @ map Info ls @
               [Info ''# Check status after upload:'', Info (butler_status target)]))"

text \<open>\<open>!x\<close> for a command-line argument: absent or the empty string.\<close>

fun falsy :: "string option \<Rightarrow> bool" where
  "falsy None = True"
| "falsy (Some s) = (s = [])"

definition godot_usage :: "console_line list" where
  "godot_usage =
     [Info ''Usage: node godot-export.js <build-directory> <itch-username/game>'',
      Info [], Info ''Example:'', Info ''  node godot-export.js ./build myname/my-game'',
      Info [], Info ''Expected build structure:'', Info ''  build/'',
      Info ''    windows/    (.exe)'', Info ''    linux/      (executable)'',
      Info ''    macos/      (.app or .zip)'', Info ''    web/        (index.html)'']"

text \<open>
  \<open>main\<close>: \<open>argv2\<close> and \<open>argv3\<close> are \<open>process.argv[2]\<close> and \<open>process.argv[3]\<close>
  (\<open>None\<close> when absent), \<open>fs\<close> resolves a path to what it names (\<open>None\<close> when nothing
  exists there). The result is how the process ends and what it printed; of a run that
  ends with an exception only the first line is kept, and the number in the line
  \<open>Found ... platform(s)\<close> is left out.
\<close>

definition godot_main ::
  "string option \<Rightarrow> string option \<Rightarrow> (string \<Rightarrow> node option) \<Rightarrow> outcome \<times> console_line list" where
  "godot_main argv2 argv3 fs =
     (if falsy argv2 \<or> falsy argv3 then (Exit 1, godot_usage)
      else
        (let buildDir = the argv2; target = the argv3 in
         case fs buildDir of
           None \<Rightarrow> (Exit 1, [Info (''Directory not found: '' @ buildDir)])
         | Some root \<Rightarrow>
             (case scanBuildDir buildDir root of
                Inl e \<Rightarrow> (Uncaught e, [Info (''Scanning: '' @ buildDir)])
              | Inr (platforms, printed) \<Rightarrow>
                  if length (Object_keys platforms) = 0
                  then (Exit 1, [Info (''Scanning: '' @ buildDir)] @ printed @
                                [Info ''No Godot exports detected''])
                  else
                    (case godot_generateCommands platforms target of
                       Inl e \<Rightarrow> (Uncaught e, [Info (''Scanning: '' @ buildDir)] @ printed)
                     | Inr cmds \<Rightarrow>
                         (Exit 0, [Info (''Scanning: '' @ buildDir)] @ printed @
                                  [Info ''Found platform(s)''] @ cmds)))))"

section \<open>renpy-publish.js\<close>

record renpy_platform =
  r_channel :: string
  r_name :: string
  r_check :: "string list \<Rightarrow> bool"

definition renpy_PLATFORMS :: "renpy_platform js_object" where
  "renpy_PLATFORMS =
     [(''pc'', \<lparr>r_channel = ''windows'', r_name = ''Windows'',
         r_check = (\<lambda>files. list_ex (\<lambda>f. endsWith f ''.exe'' \<and> \<not> str_includes f ''mac'') files)\<rparr>),
      (''mac'', \<lparr>r_channel = ''osx'', r_name = ''macOS'',
         r_check = (\<lambda>files. list_ex (\<lambda>f. endsWith f ''.app'' \<or> str_includes f ''mac''
                                          \<or> str_includes f ''-mac'') files)\<rparr>),
      (''linux'', \<lparr>r_channel = ''linux'', r_name = ''Linux'',
         r_check = (\<lambda>files. list_ex (\<lambda>f. str_includes (toLowerCase f) ''linux''
                                          \<and> \<not> str_includes f ''.exe'') files)\<rparr>),
      (''web'', \<lparr>r_channel = ''html5'', r_name = ''Web'',
         r_check = (\<lambda>files. arr_includes files ''index.html''
                            \<or> list_ex (\<lambda>f. endsWith f ''web.zip'') files)\<rparr>)]"

text \<open>
  \<open>detectPlatform(dir)\<close>: \<open>base\<close> is \<open>path.basename(dir)\<close> and \<open>dir\<close> the listing of
  the directory. The directory-name heuristic at its end is \<open>renpy_name_hint\<close>.
\<close>

definition renpy_name_hint :: "string \<Rightarrow> string option" where
  "renpy_name_hint base =
     (let name = toLowerCase base in
      if str_includes name ''win'' then Some ''pc''
      else if str_includes name ''mac'' then Some ''mac''
      else if str_includes name ''linux'' then Some ''linux''
      else if str_includes name ''web'' then Some ''web''
      else None)"

definition renpy_detectPlatform :: "string \<Rightarrow> listing \<Rightarrow> string option" where
  "renpy_detectPlatform base dir =
     (let files = readdirSync dir in
      case find (\<lambda>(key, plat). r_check plat files) (Object_entries renpy_PLATFORMS) of
        Some (key, plat) \<Rightarrow> Some key
      | None \<Rightarrow> renpy_name_hint base)"

text \<open>
  \<open>checkWebBuild\<close> and \<open>checkDesktopBuild\<close> only print; the sizes and counts they print
  are left out of the text. \<open>fs.readFileSync\<close> on a directory named \<open>index.html\<close> throws
  \<open>EISDIR\<close>.
\<close>

definition checkWebBuild :: "listing \<Rightarrow> js_error + (bool \<times> console_line list)" where
  "checkWebBuild dir =
     (case map_of dir ''index.html'' of
        None \<Rightarrow> Inr (False, [])
      | Some (Dir c) \<Rightarrow> Inl EISDIR
      | Some (File content) \<Rightarrow>
          Inr (True,
               [Info ''   index.html: KB''] @
               (if str_includes content ''pyodide'' \<or> str_includes content ''renpy-web''
                then [Info ''   Ren'Py Web (Pyodide WASM)''] else []) @
               [Info ''   files total'']))"

definition checkDesktopBuild :: "listing \<Rightarrow> string \<Rightarrow> bool \<times> console_line list" where
  "checkDesktopBuild dir platform =
     (let files = readdirSync dir;
          launcher = find (\<lambda>f.
            if platform = ''pc'' then endsWith f ''.exe'' \<and> \<not> str_includes f ''mac''
            else if platform = ''mac'' then endsWith f ''.app'' \<or> endsWith f ''mac.zip''
            else \<not> str_includes f ''.'') files;
          hasLib = (arr_includes files ''lib'' \<and> isDirectory dir ''lib'')
      in (True,
          (case launcher of
             Some l \<Rightarrow> if l \<noteq> [] then [Info (''   Launcher: '' @ l)] else []
           | None \<Rightarrow> []) @
          (if hasLib then [Info ''   Ren'Py runtime included (lib/)''] else [])))"

fun renpy_scan_loop ::
  "string \<Rightarrow> (string \<times> listing) list \<Rightarrow> string js_object \<Rightarrow> console_line list \<Rightarrow>
   js_error + (string js_object \<times> console_line list)" where
  "renpy_scan_loop buildDir [] builds out = Inr (builds, out)"
| "renpy_scan_loop buildDir ((f, contents) # rest) builds out =
     (let entry = path_join buildDir f; name = f in
      case renpy_detectPlatform name contents of
        Some platform \<Rightarrow>
          (case obj_get renpy_PLATFORMS platform of
             None \<Rightarrow> Inl TypeError
           | Some p \<Rightarrow>
               if platform = ''web'' then
                 (case checkWebBuild contents of
                    Inl e \<Rightarrow> Inl e
                  | Inr (ok, printed) \<Rightarrow>
                      renpy_scan_loop buildDir rest (obj_set builds platform entry)
                        (out @ [Detected (r_name p) name] @ printed))
               else
                 (case checkDesktopBuild contents platform of
                    (ok, printed) \<Rightarrow>
                      renpy_scan_loop buildDir rest (obj_set builds platform entry)
                        (out @ [Detected (r_name p) name] @ printed)))
      | None \<Rightarrow> renpy_scan_loop buildDir rest builds (out @ [Unknown name]))"

definition scanBuilds ::
  "string \<Rightarrow> node \<Rightarrow> js_error + (string js_object \<times> console_line list)" where
  "scanBuilds buildDir root =
     (case root of
        File t \<Rightarrow> Inl ENOTDIR
      | Dir children \<Rightarrow> renpy_scan_loop buildDir (dir_entries children) [] [])"

text \<open>
  The script as a program. The text above (lines 1 to 125 of \<open>renpy-publish.js\<close>) is valid
  JavaScript and is embedded as it reads, but the file as a whole does not parse: line 138, in
  \<open>generateCommands\<close>, opens a template literal with a backtick and closes it with a quote,
  and lines 151, 172 and 173, in \<open>main\<close>, hold unescaped apostrophes inside single-quoted
  strings. Node therefore ends with an uncaught \<open>SyntaxError\<close> before the first statement
  runs, whatever the arguments and the file system, and prints nothing of the script's own.
\<close>

definition renpy_main ::
  "string option \<Rightarrow> string option \<Rightarrow> (string \<Rightarrow> node option) \<Rightarrow> outcome \<times> console_line list" where
  "renpy_main argv2 argv3 fs = (Uncaught SyntaxError, [])"

section \<open>publish.js\<close>

text \<open>
  The outside world of \<open>publish.js\<close> is a state \<open>'w\<close> with three capabilities:
  \<open>fs.existsSync\<close>, \<open>child_process.execSync\<close> (which returns the tool's output, or throws
  an error with a message when the tool cannot be started or exits non-zero, and may change
  the world), and reading the configuration: \<open>fs.readFileSync\<close>, \<open>JSON.parse\<close> and
  the fields \<open>main\<close> takes from the result, with \<open>Inl\<close> when any of this throws. The
  field \<open>c_channels\<close> is \<open>config.channels || {}\<close>.
\<close>

datatype exec_error = ExecError string | ParseError string | NotAFunction

fun message :: "exec_error \<Rightarrow> string" where
  "message (ExecError m) = m"
| "message (ParseError m) = m"
| "message NotAFunction = ''opts.ignore.forEach is not a function''"

text \<open>
  \<open>config.ignore\<close>: absent (or otherwise falsy), an array of patterns, or some other truthy
  value, on which \<open>opts.ignore.forEach\<close> throws.
\<close>

datatype ignore_field = NoIgnore | IgnoreArray "string list" | IgnoreOther

record config =
  c_user :: "string option"
  c_game :: "string option"
  c_channels :: "string js_object"
  c_version :: "string option"
  c_ignore :: ignore_field

record 'w env =
  existsSync :: "'w \<Rightarrow> string \<Rightarrow> bool"
  execSync :: "'w \<Rightarrow> string \<Rightarrow> (string + string) \<times> 'w"
  readConfig :: "'w \<Rightarrow> string \<Rightarrow> exec_error + config"

text \<open>
  The state of a run: the world, the commands handed to \<open>execSync\<close> so far, in order,
  the console output so far, one pair of type and message per call of \<open>log\<close> (a line printed
  by \<open>console.log\<close> directly has type \<open>plain\<close>), and the array \<open>results\<close> of
  \<open>main\<close>, one pair of channel and success per \<open>results.push\<close>.
\<close>

record 'w pstate =
  world :: 'w
  executed :: "string list"
  console :: "(string \<times> string) list"
  results :: "(string \<times> bool) list"

definition log :: "string \<Rightarrow> string \<Rightarrow> 'w pstate \<Rightarrow> 'w pstate" where
  "log msg type s = s\<lparr>console := console s @ [(type, msg)]\<rparr>"

definition run :: "'w env \<Rightarrow> string \<Rightarrow> bool \<Rightarrow> 'w pstate \<Rightarrow> (exec_error + string) \<times> 'w pstate" where
  "run E cmd ignoreError s =
     (case execSync E (world s) cmd of
        (Inr out, w) \<Rightarrow> (Inr out, s\<lparr>world := w, executed := executed s @ [cmd]\<rparr>)
      | (Inl m, w) \<Rightarrow>
          (if \<not> ignoreError then Inl (ExecError m) else Inr [],
           s\<lparr>world := w, executed := executed s @ [cmd]\<rparr>))"

definition checkButler :: "'w env \<Rightarrow> 'w pstate \<Rightarrow> bool \<times> 'w pstate" where
  "checkButler E s =
     (case run E ''butler -v'' False s of
        (Inr version, s1) \<Rightarrow> (True, log (''Butler version: '' @ trim version) ''success'' s1)
      | (Inl e, s1) \<Rightarrow>
          (False, log ''Butler not found. Install from https://itch.io/docs/butler/'' ''error'' s1))"

record push_opts =
  opt_version :: "string option"
  opt_ignore :: ignore_field
  opt_dryRun :: bool

text \<open>
  The command line \<open>pushChannel\<close> builds; \<open>opts.ignore.forEach\<close> throws when
  \<open>opts.ignore\<close> is truthy and not an array.
\<close>

definition push_command :: "string \<Rightarrow> string \<Rightarrow> push_opts \<Rightarrow> exec_error + string" where
  "push_command sourcePath target opts =
     (let cmd = ''butler push '' @ quoted sourcePath @ '' '' @ quoted target;
          cmd = (if \<not> falsy (opt_version opts)
                 then cmd @ '' --userversion '' @ quoted (the (opt_version opts)) else cmd);
          cmd = (if opt_dryRun opts then cmd @ '' --dry-run'' else cmd)
      in case opt_ignore opts of
           NoIgnore \<Rightarrow> Inr cmd
         | IgnoreArray patterns \<Rightarrow>
             Inr (fold (\<lambda>pattern c. c @ '' --ignore '' @ quoted pattern) patterns cmd)
         | IgnoreOther \<Rightarrow> Inl NotAFunction)"

text \<open>\<open>run(cmd)\<close> inside \<open>try\<close>/\<open>catch\<close>, with the two lines around it.\<close>

definition push_run :: "'w env \<Rightarrow> string \<Rightarrow> string \<Rightarrow> string \<Rightarrow> 'w pstate \<Rightarrow> bool \<times> 'w pstate" where
  "push_run E channel sourcePath cmd s =
     (case run E cmd False (log (''Pushing '' @ channel @ '' from '' @ sourcePath @ ''...'') ''info'' s) of
        (Inr out, s1) \<Rightarrow> (True, log (channel @ '' uploaded successfully'') ''success'' s1)
      | (Inl e, s1) \<Rightarrow>
          (False, log (''Failed to push '' @ channel @ '': '' @ message e) ''error'' s1))"

definition pushChannel ::
  "'w env \<Rightarrow> string \<Rightarrow> string \<Rightarrow> string \<Rightarrow> string \<Rightarrow> push_opts \<Rightarrow> 'w pstate \<Rightarrow>
   (exec_error + bool) \<times> 'w pstate" where
  "pushChannel E user game channel sourcePath opts s =
     (let target = user @ ''/'' @ game @ '':'' @ channel in
      if \<not> existsSync E (world s) sourcePath
      then (Inr False, log (''Source path not found: '' @ sourcePath) ''warn'' s)
      else
        (case push_command sourcePath target opts of
           Inl e \<Rightarrow> (Inl e, s)
         | Inr cmd \<Rightarrow>
             (case push_run E channel sourcePath cmd s of (ok, s1) \<Rightarrow> (Inr ok, s1))))"

definition checkStatus :: "'w env \<Rightarrow> string \<Rightarrow> string \<Rightarrow> 'w pstate \<Rightarrow> 'w pstate" where
  "checkStatus E user game s =
     (case run E (''butler status '' @ quoted (user @ ''/'' @ game)) False
             (log (''Checking status for '' @ user @ ''/'' @ game @ ''...'') ''info'' s) of
        (Inr out, s1) \<Rightarrow> s1
      | (Inl e, s1) \<Rightarrow> log ''Status check failed'' ''warn'' s1)"

text \<open>
  The \<open>for\<close> loop of \<open>main\<close> over \<open>Object.entries(config.channels)\<close>; an exception
  of \<open>pushChannel\<close> leaves the loop.
\<close>

fun push_loop ::
  "'w env \<Rightarrow> string \<Rightarrow> string \<Rightarrow> push_opts \<Rightarrow> (string \<times> string) list \<Rightarrow> 'w pstate \<Rightarrow>
   exec_error option \<times> 'w pstate" where
  "push_loop E user game opts [] s = (None, s)"
| "push_loop E user game opts ((channel, sourcePath) # rest) s =
     (case pushChannel E user game channel sourcePath opts s of
        (Inl e, s1) \<Rightarrow> (Some e, s1)
      | (Inr success, s1) \<Rightarrow>
          push_loop E user game opts rest (s1\<lparr>results := results s1 @ [(channel, success)]\<rparr>))"

text \<open>The summary: the heading, then one line per element of \<open>results\<close>.\<close>

definition summary_line :: "string \<times> bool \<Rightarrow> string \<times> string" where
  "summary_line r =
     (if snd r then ''success'' else ''error'', fst r @ '': '' @ (if snd r then ''OK'' else ''FAILED''))"

definition summary :: "'w pstate \<Rightarrow> 'w pstate" where
  "summary s =
     fold (\<lambda>r. log (snd (summary_line r)) (fst (summary_line r))) (results s)
       (log ''=== SUMMARY ==='' ''info'' (log [] ''plain'' s))"

text \<open>The usage text; the example configuration it prints is abridged.\<close>

definition publish_usage :: "(string \<times> string) list" where
  "publish_usage =
     [(''plain'', ''Usage: node publish.js <config.json>''), (''plain'', []),
      (''plain'', ''Example config.json:''), (''plain'', ''{ ... }'')]"

text \<open>
  \<open>main\<close> with the handler \<open>main().catch(e => { log(e.message, 'error'); process.exit(1) })\<close>:
  \<open>argv\<close> is \<open>process.argv\<close> and \<open>w\<close> the world the process starts in. The result is how
  the process ends and the final state.
\<close>

definition publish_main :: "'w env \<Rightarrow> string list \<Rightarrow> 'w \<Rightarrow> outcome \<times> 'w pstate" where
  "publish_main E argv w =
     (let s = \<lparr>world = w, executed = [], console = [], results = []\<rparr>;
          configPath = (if 2 < length argv then Some (argv ! 2) else None) in
      if falsy configPath then (Exit 1, s\<lparr>console := console s @ publish_usage\<rparr>)
      else if \<not> existsSync E (world s) (the configPath)
      then (Exit 1, log (''Config file not found: '' @ the configPath) ''error'' s)
      else
        (case readConfig E (world s) (the configPath) of
           Inl e \<Rightarrow> (Exit 1, log (message e) ''error'' s)
         | Inr config \<Rightarrow>
             if falsy (c_user config) \<or> falsy (c_game config)
             then (Exit 1, log (''Config must include '' @ quoted ''user'' @ '' and '' @ quoted ''game''
                                @ '' fields'') ''error'' s)
             else
               (case checkButler E s of
                  (False, s1) \<Rightarrow> (Exit 1, s1)
                | (True, s1) \<Rightarrow>
                    (let dryRun = arr_includes argv ''--dry-run'';
                         s2 = (if dryRun then log ''DRY RUN MODE - no actual uploads'' ''warn'' s1 else s1);
                         channels = Object_entries (c_channels config)
                     in
                       if length channels = 0 then (Exit 1, log ''No channels configured'' ''warn'' s2)
                       else
                         (case push_loop E (the (c_user config)) (the (c_game config))
                                 \<lparr>opt_version = c_version config, opt_ignore = c_ignore config,
                                  opt_dryRun = dryRun\<rparr> channels (s2\<lparr>results := []\<rparr>) of
                            (Some e, s3) \<Rightarrow> (Exit 1, log (message e) ''error'' s3)
                          | (None, s3) \<Rightarrow>
                              (Exit 0,
                               checkStatus E (the (c_user config)) (the (c_game config))
                                 (summary s3)))))))"

section \<open>What the scans are measured against\<close>

text \<open>
  The child directories that classify, each as its tag and its name, in enumeration order,
  and the names of those that do not.
\<close>

definition godot_classified :: "(string \<times> listing) list \<Rightarrow> (string \<times> string) list" where
  "godot_classified es =
     List.map_filter (\<lambda>(f, c). map_option (\<lambda>t. (t, f)) (godot_detectPlatform c)) es"

definition godot_unclassified :: "(string \<times> listing) list \<Rightarrow> string list" where
  "godot_unclassified es = map fst (filter (\<lambda>(f, c). godot_detectPlatform c = None) es)"

definition renpy_classified :: "(string \<times> listing) list \<Rightarrow> (string \<times> string) list" where
  "renpy_classified es =
     List.map_filter (\<lambda>(f, c). map_option (\<lambda>t. (t, f)) (renpy_detectPlatform f c)) es"

definition renpy_unclassified :: "(string \<times> listing) list \<Rightarrow> string list" where
  "renpy_unclassified es = map fst (filter (\<lambda>(f, c). renpy_detectPlatform f c = None) es)"

text \<open>
  The assignments \<open>platforms[tag] = path.join(buildDir, name)\<close> of a scan, one after the
  other.
\<close>

definition assign_all :: "string \<Rightarrow> (string \<times> string) list \<Rightarrow> string js_object \<Rightarrow> string js_object" where
  "assign_all buildDir cls obj = fold (\<lambda>(t, f) ob. obj_set ob t (path_join buildDir f)) cls obj"

text \<open>The elements of a list in the order of their first occurrence.\<close>

fun first_occurrences :: "string list \<Rightarrow> string list" where
  "first_occurrences [] = []"
| "first_occurrences (x # xs) = x # removeAll x (first_occurrences xs)"

text \<open>
  The order the specification asks for: the detected tags in the order in which the table
  \<open>PLATFORMS\<close> declares them.
\<close>

definition spec_declaration_order :: "'v js_object \<Rightarrow> string list \<Rightarrow> string list" where
  "spec_declaration_order table tags = filter (\<lambda>k. k \<in> set tags) (Object_keys table)"

text \<open>\<open>PLATFORMS[plat].channel\<close> for a tag of the table.\<close>

definition godot_channel :: "string \<Rightarrow> string" where
  "godot_channel t = (case obj_get godot_PLATFORMS t of Some p \<Rightarrow> g_channel p | None \<Rightarrow> [])"

section \<open>What a publish run is measured against\<close>

text \<open>
  The publisher as the specification words it (steps 1, 2 and 4 of the Channel Publisher):
  the targets are taken in turn, each in the world the targets before it left behind,
  whatever became of them. A target whose source path does not exist there is not
  transferred and the world stays as it is; for any other target the transfer command is
  run, and what the external tool answered is kept with the command.
\<close>

datatype attempt = SourceMissing | Transferred string "string + string"

text \<open>The command line \<open>pushChannel\<close> builds for a target, when it builds one.\<close>

definition the_push_command :: "string \<Rightarrow> string \<Rightarrow> string \<Rightarrow> string \<Rightarrow> push_opts \<Rightarrow> string" where
  "the_push_command user game channel sourcePath opts =
     (case push_command sourcePath (user @ ''/'' @ game @ '':'' @ channel) opts of
        Inr cmd \<Rightarrow> cmd
      | Inl e \<Rightarrow> [])"

fun spec_publish ::
  "'w env \<Rightarrow> string \<Rightarrow> string \<Rightarrow> push_opts \<Rightarrow> (string \<times> string) list \<Rightarrow> 'w \<Rightarrow>
   (string \<times> string \<times> attempt) list \<times> 'w" where
  "spec_publish E user game opts [] w = ([], w)"
| "spec_publish E user game opts ((channel, sourcePath) # rest) w =
     (if \<not> existsSync E w sourcePath then
        (case spec_publish E user game opts rest w of
           (attempts, w') \<Rightarrow> ((channel, sourcePath, SourceMissing) # attempts, w'))
      else
        (case execSync E w (the_push_command user game channel sourcePath opts) of
           (answer, w1) \<Rightarrow>
             (case spec_publish E user game opts rest w1 of
                (attempts, w') \<Rightarrow>
                  ((channel, sourcePath,
                    Transferred (the_push_command user game channel sourcePath opts) answer)
                   # attempts, w'))))"

text \<open>
  The world in which target number \<open>i\<close> (from 0) is attempted: the one the targets before it
  have left.
\<close>

definition world_before ::
  "'w env \<Rightarrow> string \<Rightarrow> string \<Rightarrow> push_opts \<Rightarrow> (string \<times> string) list \<Rightarrow> 'w \<Rightarrow> nat \<Rightarrow> 'w" where
  "world_before E user game opts channels w i =
     snd (spec_publish E user game opts (take i channels) w)"

text \<open>
  What an attempt amounts to: the outcome recorded for the channel (succeeded only when
  the tool was run and returned), the commands run for it, and the lines printed for it.
\<close>

fun succeeded :: "attempt \<Rightarrow> bool" where
  "succeeded SourceMissing = False"
| "succeeded (Transferred cmd (Inl m)) = False"
| "succeeded (Transferred cmd (Inr out)) = True"

fun spec_outcome :: "string \<times> string \<times> attempt \<Rightarrow> string \<times> bool" where
  "spec_outcome (channel, sourcePath, a) = (channel, succeeded a)"

fun spec_commands :: "string \<times> string \<times> attempt \<Rightarrow> string list" where
  "spec_commands (channel, sourcePath, SourceMissing) = []"
| "spec_commands (channel, sourcePath, Transferred cmd answer) = [cmd]"

fun spec_lines :: "string \<times> string \<times> attempt \<Rightarrow> (string \<times> string) list" where
  "spec_lines (channel, sourcePath, SourceMissing) =
     [(''warn'', ''Source path not found: '' @ sourcePath)]"
| "spec_lines (channel, sourcePath, Transferred cmd (Inr out)) =
     [(''info'', ''Pushing '' @ channel @ '' from '' @ sourcePath @ ''...''),
      (''success'', channel @ '' uploaded successfully'')]"
| "spec_lines (channel, sourcePath, Transferred cmd (Inl m)) =
     [(''info'', ''Pushing '' @ channel @ '' from '' @ sourcePath @ ''...''),
      (''error'', ''Failed to push '' @ channel @ '': '' @ m)]"

section \<open>A sample configuration and world\<close>

text \<open>
  The configuration of the usage text of \<open>publish.js\<close> with three channels, and a world
  in which the paths listed in \<open>missing\<close> do not exist and the external tool fails on every
  command that contains one of the words in \<open>failing\<close>; the world counts the commands run.
\<close>

definition demo_config :: config where
  "demo_config =
     \<lparr>c_user = Some ''alice'', c_game = Some ''mygame'',
      c_channels = [(''osx'', ''./build/mac''), (''linux'', ''./build/linux''), (''html5'', ''./dist'')],
      c_version = Some ''1.0.0'', c_ignore = IgnoreArray [''*.map'']\<rparr>"

definition demo_env :: "string list \<Rightarrow> string list \<Rightarrow> nat env" where
  "demo_env missing failing =
     \<lparr>existsSync = (\<lambda>w p. p \<notin> set missing),
      execSync = (\<lambda>w cmd. (if list_ex (str_includes cmd) failing
                               then Inl ''exit status 1'' else Inr ''ok'', Suc w)),
      readConfig = (\<lambda>w p. Inr demo_config)\<rparr>"

section \<open>Facts about the string tests\<close>

lemma str_includes_char: "str_includes s [c] \<longleftrightarrow> c \<in> set s"
  unfolding str_includes_def
  by (induction s) (auto simp: sublist_Cons_right)

lemma endsWith_set: "endsWith s t \<Longrightarrow> set t \<subseteq> set s"
  unfolding endsWith_def by (rule set_mono_suffix)

lemma str_includes_set: "str_includes s t \<Longrightarrow> set t \<subseteq> set s"
  unfolding str_includes_def by (rule set_mono_sublist)

lemma str_includes_trans: "str_includes s t \<Longrightarrow> str_includes t u \<Longrightarrow> str_includes s u"
  unfolding str_includes_def by (meson sublist_order.order_trans)

lemma no_dot_endsWith: "\<not> str_includes f ''.'' \<Longrightarrow> CHR ''.'' \<in> set t \<Longrightarrow> \<not> endsWith f t"
  using endsWith_set str_includes_char by fastforce

lemma no_dot_includes: "\<not> str_includes f ''.'' \<Longrightarrow> CHR ''.'' \<in> set t \<Longrightarrow> \<not> str_includes f t"
  using str_includes_set str_includes_char by fastforce

lemma dash_mac: "str_includes f ''-mac'' \<Longrightarrow> str_includes f ''mac''"
  by (erule str_includes_trans) (simp add: str_includes_def sublist_code)

section \<open>Classification of one directory\<close>

lemma godot_exe:
  assumes "list_ex (\<lambda>f. endsWith f ''.exe'') (readdirSync dir)"
  shows "godot_detectPlatform dir =
           Some (if arr_includes (readdirSync dir) ''index.html'' then ''web'' else ''windows'')"
  using assms by (simp add: godot_detectPlatform_def)

lemma renpy_exe_pc:
  assumes "list_ex (\<lambda>f. endsWith f ''.exe'' \<and> \<not> str_includes f ''mac'') (readdirSync dir)"
  shows "renpy_detectPlatform base dir = Some ''pc''"
  using assms by (simp add: renpy_detectPlatform_def renpy_PLATFORMS_def Object_entries_def)

lemma renpy_exe_mac:
  assumes "list_ex (\<lambda>f. endsWith f ''.exe'') (readdirSync dir)"
    and "\<not> list_ex (\<lambda>f. endsWith f ''.exe'' \<and> \<not> str_includes f ''mac'') (readdirSync dir)"
  shows "renpy_detectPlatform base dir = Some ''mac''"
proof -
  from assms have
    "list_ex (\<lambda>f. endsWith f ''.app'' \<or> str_includes f ''mac'' \<or> str_includes f ''-mac'')
       (readdirSync dir)"
    by (auto simp: list_ex_iff)
  with assms(2) show ?thesis
    by (simp add: renpy_detectPlatform_def renpy_PLATFORMS_def Object_entries_def)
qed

text \<open>
  Claim C5, as the code has it. A directory that lists a file ending in \<open>.exe\<close> (whatever
  else it lists, an extension-less file included) is never classified as linux. The Godot
  classifier returns the web tag when the listing also holds \<open>index.html\<close> and the windows
  tag otherwise. The Ren'Py classifier returns its windows tag \<open>pc\<close> when the name of some
  \<open>.exe\<close> file does not contain \<open>mac\<close>, and its macOS tag otherwise.
\<close>

theorem exe_directory_classification:
  assumes "list_ex (\<lambda>f. endsWith f ''.exe'') (readdirSync dir)"
  shows "godot_detectPlatform dir =
           Some (if arr_includes (readdirSync dir) ''index.html'' then ''web'' else ''windows'') \<and>
         godot_detectPlatform dir \<noteq> Some ''linux'' \<and>
         renpy_detectPlatform base dir =
           Some (if list_ex (\<lambda>f. endsWith f ''.exe'' \<and> \<not> str_includes f ''mac'') (readdirSync dir)
                 then ''pc'' else ''mac'') \<and>
         renpy_detectPlatform base dir \<noteq> Some ''linux''"
proof -
  have g: "godot_detectPlatform dir =
           Some (if arr_includes (readdirSync dir) ''index.html'' then ''web'' else ''windows'')"
    using assms by (rule godot_exe)
  have r: "renpy_detectPlatform base dir =
           Some (if list_ex (\<lambda>f. endsWith f ''.exe'' \<and> \<not> str_includes f ''mac'') (readdirSync dir)
                 then ''pc'' else ''mac'')"
    using assms renpy_exe_pc[of dir base] renpy_exe_mac[of dir base] by simp
  from g have "godot_detectPlatform dir \<noteq> Some ''linux''" by simp
  moreover from r have "renpy_detectPlatform base dir \<noteq> Some ''linux''" by simp
  ultimately show ?thesis using g r by blast
qed

theorem exe_directory_classification_witness:
  "list_ex (\<lambda>f. endsWith f ''.exe'') (readdirSync [(''game.exe'', File []), (''game'', File [])]) \<and>
   godot_detectPlatform [(''game.exe'', File []), (''game'', File [])] = Some ''windows'' \<and>
   renpy_detectPlatform ''build1'' [(''game.exe'', File []), (''game'', File [])] = Some ''pc''"
proof -
  have h: "list_ex (\<lambda>f. endsWith f ''.exe'') (readdirSync [(''game.exe'', File []), (''game'', File [])])"
    by code_simp
  have a: "\<not> arr_includes (readdirSync [(''game.exe'', File []), (''game'', File [])]) ''index.html''"
    by code_simp
  have b: "list_ex (\<lambda>f. endsWith f ''.exe'' \<and> \<not> str_includes f ''mac'')
             (readdirSync [(''game.exe'', File []), (''game'', File [])])"
    by code_simp
  show ?thesis
    using exe_directory_classification[OF h, of "''build1''"] h a b by simp
qed

text \<open>
  Claim C5 as stated fails: the directory below lists a \<open>.exe\<close> file and an extension-less
  file, and the Godot classifier returns the web tag, not the windows tag.
\<close>

theorem exe_directory_counterexample:
  "list_ex (\<lambda>f. endsWith f ''.exe'')
     (readdirSync [(''index.html'', File []), (''game.exe'', File []), (''game'', File [])]) \<and>
   list_ex (\<lambda>f. \<not> str_includes f ''.'')
     (readdirSync [(''index.html'', File []), (''game.exe'', File []), (''game'', File [])]) \<and>
   godot_detectPlatform [(''index.html'', File []), (''game.exe'', File []), (''game'', File [])]
     = Some ''web'' \<and>
   godot_detectPlatform [(''index.html'', File []), (''game.exe'', File []), (''game'', File [])]
     \<noteq> Some ''windows''"
  by code_simp

text \<open>
  Claim C6, as the code has it. For a directory that holds one regular file whose name has
  no dot and nothing else, the Godot classifier returns the linux tag. The Ren'Py classifier
  goes by the file's name: the macOS tag when it contains \<open>mac\<close>, else the linux tag when
  it contains \<open>linux\<close> in any letter case, else whatever the directory-name heuristic gives.
\<close>

theorem single_extensionless_file:
  assumes "\<not> str_includes f ''.''"
  shows "godot_detectPlatform [(f, File t)] = Some ''linux'' \<and>
         renpy_detectPlatform base [(f, File t)] =
           (if str_includes f ''mac'' then Some ''mac''
            else if str_includes (toLowerCase f) ''linux'' then Some ''linux''
            else renpy_name_hint base)"
proof
  have nd: "\<And>t. CHR ''.'' \<in> set t \<Longrightarrow> \<not> endsWith f t"
    using assms by (rule no_dot_endsWith)
  have ni: "\<And>t. CHR ''.'' \<in> set t \<Longrightarrow> \<not> str_includes f t"
    using assms by (rule no_dot_includes)
  have idx: "f \<noteq> ''index.html''"
    using assms by (auto simp: str_includes_char)
  show "godot_detectPlatform [(f, File t)] = Some ''linux''"
    using assms idx
    by (simp add: godot_detectPlatform_def readdirSync_def arr_includes_def nd
        godot_mac_block_def isFile_def)
  show "renpy_detectPlatform base [(f, File t)] =
           (if str_includes f ''mac'' then Some ''mac''
            else if str_includes (toLowerCase f) ''linux'' then Some ''linux''
            else renpy_name_hint base)"
    using idx dash_mac[of f]
    by (auto simp add: renpy_detectPlatform_def readdirSync_def arr_includes_def nd ni
        renpy_PLATFORMS_def Object_entries_def)
qed

theorem single_extensionless_file_witness:
  "\<not> str_includes ''game'' ''.'' \<and>
   godot_detectPlatform [(''game'', File [])] = Some ''linux'' \<and>
   renpy_detectPlatform ''game-linux'' [(''game'', File [])] = Some ''linux''"
proof -
  have h: "\<not> str_includes ''game'' ''.''" by code_simp
  have a: "\<not> str_includes ''game'' ''mac''" by code_simp
  have b: "\<not> str_includes (toLowerCase ''game'') ''linux''" by code_simp
  have c: "renpy_name_hint ''game-linux'' = Some ''linux''" by code_simp
  show ?thesis
    using single_extensionless_file[OF h, of "[]" "''game-linux''"] h a b c by simp
qed

text \<open>
  Claim C6 as stated fails for the Ren'Py classifier: a directory \<open>build1\<close> holding the one
  extension-less regular file \<open>game\<close> is not classified at all.
\<close>

theorem single_extensionless_file_counterexample:
  "\<not> str_includes ''game'' ''.'' \<and>
   renpy_detectPlatform ''build1'' [(''game'', File [])] = None \<and>
   renpy_detectPlatform ''build1'' [(''game'', File [])] \<noteq> Some ''linux''"
  by code_simp

text \<open>
  Claim C7, as the code has it. In the Ren'Py classifier, when no \<open>check\<close> of the table
  matches the listing, the lower-cased base name of the directory decides, the first of
  \<open>win\<close>, \<open>mac\<close>, \<open>linux\<close>, \<open>web\<close> it contains giving \<open>pc\<close>, \<open>mac\<close>, \<open>linux\<close>,
  \<open>web\<close>, and none when it contains none of them. The Godot classifier has no such
  fallback: a directory whose listing matches no signature is reported as unknown and
  leaves the mapping as it was, whatever its name.
\<close>

theorem directory_name_fallback:
  "(list_all (\<lambda>(key, plat). \<not> r_check plat (readdirSync dir)) renpy_PLATFORMS \<longrightarrow>
      renpy_detectPlatform base dir =
        (if str_includes (toLowerCase base) ''win'' then Some ''pc''
         else if str_includes (toLowerCase base) ''mac'' then Some ''mac''
         else if str_includes (toLowerCase base) ''linux'' then Some ''linux''
         else if str_includes (toLowerCase base) ''web'' then Some ''web''
         else None)) \<and>
   (godot_detectPlatform contents = None \<longrightarrow>
      godot_scan_loop buildDir ((f, contents) # rest) platforms out =
      godot_scan_loop buildDir rest platforms (out @ [Unknown (toLowerCase f)]))"
proof
  show "list_all (\<lambda>(key, plat). \<not> r_check plat (readdirSync dir)) renpy_PLATFORMS \<longrightarrow>
      renpy_detectPlatform base dir =
        (if str_includes (toLowerCase base) ''win'' then Some ''pc''
         else if str_includes (toLowerCase base) ''mac'' then Some ''mac''
         else if str_includes (toLowerCase base) ''linux'' then Some ''linux''
         else if str_includes (toLowerCase base) ''web'' then Some ''web''
         else None)"
    by (simp add: renpy_detectPlatform_def renpy_PLATFORMS_def Object_entries_def
        renpy_name_hint_def)
  show "godot_detectPlatform contents = None \<longrightarrow>
      godot_scan_loop buildDir ((f, contents) # rest) platforms out =
      godot_scan_loop buildDir rest platforms (out @ [Unknown (toLowerCase f)])"
    by simp
qed

theorem directory_name_fallback_witness:
  "renpy_detectPlatform ''game-1.0-mac'' [(''readme.txt'', File [])] = Some ''mac'' \<and>
   renpy_detectPlatform ''notes'' [(''readme.txt'', File [])] = None \<and>
   godot_scan_loop ''build'' [(''windows'', [(''readme.txt'', File [])])] [] [] =
     Inr ([], [Unknown ''windows''])"
proof -
  have h: "list_all (\<lambda>(key, plat). \<not> r_check plat (readdirSync [(''readme.txt'', File [])]))
             renpy_PLATFORMS"
    by code_simp
  have g: "godot_detectPlatform [(''readme.txt'', File [])] = None" by code_simp
  have a: "\<not> str_includes (toLowerCase ''game-1.0-mac'') ''win''"
    "str_includes (toLowerCase ''game-1.0-mac'') ''mac''"
    "\<not> str_includes (toLowerCase ''notes'') ''win''"
    "\<not> str_includes (toLowerCase ''notes'') ''mac''"
    "\<not> str_includes (toLowerCase ''notes'') ''linux''"
    "\<not> str_includes (toLowerCase ''notes'') ''web''"
    "toLowerCase ''windows'' = ''windows''"
    by code_simp+
  show ?thesis
    using directory_name_fallback[of "[(''readme.txt'', File [])]" "''game-1.0-mac''"
        "[(''readme.txt'', File [])]" "''build''" "''windows''" "[]" "[]" "[]"]
      directory_name_fallback[of "[(''readme.txt'', File [])]" "''notes''"
        "[(''readme.txt'', File [])]" "''build''" "''windows''" "[]" "[]" "[]"]
      h g a
    by simp
qed

text \<open>
  Claim C7 as stated fails for the Godot scanner: the listing of the directory
  \<open>windows\<close> matches no signature, its lower-cased name contains \<open>win\<close>, and it is reported
  as unknown instead of being given the windows tag.
\<close>

theorem directory_name_fallback_counterexample:
  "str_includes (toLowerCase ''windows'') ''win'' \<and>
   godot_detectPlatform [(''readme.txt'', File [])] = None \<and>
   scanBuildDir ''build'' (Dir [(''windows'', Dir [(''readme.txt'', File [])])]) =
     Inr ([], [Unknown ''windows''])"
  by code_simp

section \<open>Exit codes of the two scanners\<close>

lemma godot_loop_unclassified:
  "list_all (\<lambda>(f, c). godot_detectPlatform c = None) es \<Longrightarrow>
   godot_scan_loop buildDir es platforms out =
     Inr (platforms, out @ map (\<lambda>(f, c). Unknown (toLowerCase f)) es)"
  by (induction es arbitrary: out) auto

text \<open>
  Claim C8. \<open>godot-export.js\<close> ends with \<open>process.exit(1)\<close> when a positional argument
  is missing (or empty), when nothing exists at the build root, and when the build root is a
  directory none of whose child directories is classified. \<open>renpy-publish.js\<close> does not
  parse, so it ends with an uncaught \<open>SyntaxError\<close> and exit code 1 on every input, these
  three cases included.
\<close>

theorem main_exits_nonzero:
  "(falsy argv2 \<or> falsy argv3 \<longrightarrow> fst (godot_main argv2 argv3 fs) = Exit 1) \<and>
   (fs buildDir = None \<longrightarrow> fst (godot_main (Some buildDir) argv3 fs) = Exit 1) \<and>
   (fs buildDir = Some (Dir children) \<and>
    list_all (\<lambda>(f, c). godot_detectPlatform c = None) (dir_entries children) \<longrightarrow>
      fst (godot_main (Some buildDir) argv3 fs) = Exit 1) \<and>
   fst (renpy_main argv2 argv3 fs) = Uncaught SyntaxError \<and>
   exit_code (fst (renpy_main argv2 argv3 fs)) = 1"
  by (simp add: godot_main_def renpy_main_def scanBuildDir_def godot_loop_unclassified
      Object_keys_def)

theorem main_exits_nonzero_witness:
  "fst (godot_main None None Map.empty) = Exit 1 \<and>
   fst (godot_main (Some ''build'') None Map.empty) = Exit 1 \<and>
   fst (godot_main (Some ''build'') (Some ''alice/mygame'') Map.empty) = Exit 1 \<and>
   fst (godot_main (Some ''build'') (Some ''alice/mygame'')
          [''build'' \<mapsto> Dir [(''notes'', Dir [(''readme.txt'', File [])])]]) = Exit 1 \<and>
   exit_code (fst (renpy_main (Some ''build'') (Some ''alice/mygame'')
          [''build'' \<mapsto> Dir [(''windows'', Dir [(''game.exe'', File [])])]])) = 1 \<and>
   fst (godot_main (Some ''build'') (Some ''alice/mygame'')
          [''build'' \<mapsto> Dir [(''windows'', Dir [(''game.exe'', File [])])]]) = Exit 0"
proof -
  have n: "godot_detectPlatform [(''readme.txt'', File [])] = None" by code_simp
  have ok: "fst (godot_main (Some ''build'') (Some ''alice/mygame'')
          [''build'' \<mapsto> Dir [(''windows'', Dir [(''game.exe'', File [])])]]) = Exit 0"
    by code_simp
  show ?thesis
    using main_exits_nonzero[of None None Map.empty "''build''"
        "[(''notes'', Dir [(''readme.txt'', File [])])]"]
      main_exits_nonzero[of "Some ''build''" None Map.empty "''build''"
        "[(''notes'', Dir [(''readme.txt'', File [])])]"]
      main_exits_nonzero[of "Some ''build''" "Some ''alice/mygame''" Map.empty "''build''" "[]"]
      main_exits_nonzero[of "Some ''build''" "Some ''alice/mygame''"
        "[''build'' \<mapsto> Dir [(''notes'', Dir [(''readme.txt'', File [])])]]" "''build''"
        "[(''notes'', Dir [(''readme.txt'', File [])])]"]
      main_exits_nonzero[of "Some ''build''" "Some ''alice/mygame''"
        "[''build'' \<mapsto> Dir [(''windows'', Dir [(''game.exe'', File [])])]]" "''build''"
        "[(''windows'', Dir [(''game.exe'', File [])])]"]
      n ok
    by simp
qed

section \<open>Objects, scans and what they return\<close>

lemma map_of_obj_set: "map_of (obj_set obj k v) = (map_of obj)(k \<mapsto> v)"
  by (induction obj) (auto simp: fun_eq_iff)

lemma keys_obj_set:
  "map fst (obj_set obj k v) = (if k \<in> set (map fst obj) then map fst obj else map fst obj @ [k])"
  by (induction obj) (force split: if_splits)+

lemma set_first_occurrences: "set (first_occurrences xs) = set xs"
  by (induction xs) auto

lemma distinct_first_occurrences: "distinct (first_occurrences xs)"
  by (induction xs) (auto simp: distinct_removeAll)

lemma first_occurrences_snoc:
  "first_occurrences (xs @ [x]) =
     (if x \<in> set xs then first_occurrences xs else first_occurrences xs @ [x])"
  by (induction xs) (auto simp: set_first_occurrences)

lemma first_occurrences_distinct: "distinct xs \<Longrightarrow> first_occurrences xs = xs"
  by (induction xs) (auto simp: set_first_occurrences removeAll_id)

lemma length_first_occurrences: "length (first_occurrences xs) = card (set xs)"
  using distinct_card[OF distinct_first_occurrences, of xs] by (simp add: set_first_occurrences)

lemma assign_all_snoc:
  "assign_all b (cls @ [(t, f)]) obj = obj_set (assign_all b cls obj) t (path_join b f)"
  by (simp add: assign_all_def)

lemma keys_assign_all: "map fst (assign_all b cls []) = first_occurrences (map fst cls)"
proof (induction cls rule: rev_induct)
  case Nil
  then show ?case by (simp add: assign_all_def)
next
  case (snoc x cls)
  obtain t f where x: "x = (t, f)" by (cases x)
  have "set (map fst (assign_all b cls [])) = set (map fst cls)"
    using snoc by (simp add: set_first_occurrences)
  then show ?case
    using snoc unfolding x assign_all_snoc
    by (simp add: keys_obj_set first_occurrences_snoc)
qed

lemma map_of_assign_all:
  "map_of (assign_all b cls obj) = map_of obj ++ map_of (rev (map (\<lambda>(t, f). (t, path_join b f)) cls))"
proof (induction cls rule: rev_induct)
  case Nil
  then show ?case by (simp add: assign_all_def)
next
  case (snoc x cls)
  obtain t f where x: "x = (t, f)" by (cases x)
  show ?case
    unfolding x assign_all_snoc map_of_obj_set snoc
    by (auto simp: fun_eq_iff map_add_def split: option.splits)
qed

lemma checkCORS_no_Unknown: "checkCORS d = Inr (b, printed) \<Longrightarrow> filter is_Unknown printed = []"
  by (auto simp: checkCORS_def Let_def split: option.splits node.splits if_splits)

lemma checkWebBuild_no_Unknown: "checkWebBuild d = Inr (b, printed) \<Longrightarrow> filter is_Unknown printed = []"
  by (auto simp: checkWebBuild_def split: option.splits node.splits if_splits)

lemma checkDesktopBuild_no_Unknown: "checkDesktopBuild d p = (b, printed) \<Longrightarrow> filter is_Unknown printed = []"
  by (auto simp: checkDesktopBuild_def Let_def split: option.splits if_splits)

lemma godot_classified_Cons:
  "godot_classified ((f, c) # es) =
     (case godot_detectPlatform c of None \<Rightarrow> godot_classified es | Some t \<Rightarrow> (t, f) # godot_classified es)"
  by (simp add: godot_classified_def map_filter_simps split: option.splits)

lemma godot_unclassified_Cons:
  "godot_unclassified ((f, c) # es) =
     (case godot_detectPlatform c of None \<Rightarrow> f # godot_unclassified es | Some t \<Rightarrow> godot_unclassified es)"
  by (simp add: godot_unclassified_def split: option.splits)

lemma assign_all_Cons:
  "assign_all b ((t, f) # cls) obj = assign_all b cls (obj_set obj t (path_join b f))"
  by (simp add: assign_all_def)

lemma godot_scan_loop_Some:
  assumes "godot_detectPlatform c = Some t"
    and "godot_scan_loop buildDir ((f, c) # es) platforms out = Inr r"
  shows "\<exists>(p::godot_platform) printed.
           godot_scan_loop buildDir es (obj_set platforms t (path_join buildDir f))
             (out @ [Detected (g_name p) (toLowerCase f)] @ printed) = Inr r \<and>
           filter is_Unknown printed = []"
proof -
  from assms obtain p where p: "obj_get godot_PLATFORMS t = Some p"
    by (cases "obj_get godot_PLATFORMS t") (auto simp: Let_def)
  show ?thesis
  proof (cases "t = ''web''")
    case True
    with assms p obtain hasCOI printed where c: "checkCORS c = Inr (hasCOI, printed)"
      by (cases "checkCORS c") (auto simp: Let_def)
    with assms p True have
      "godot_scan_loop buildDir es (obj_set platforms t (path_join buildDir f))
         (out @ [Detected (g_name p) (toLowerCase f)] @ printed) = Inr r"
      by (simp add: Let_def)
    with checkCORS_no_Unknown[OF c] show ?thesis
      by (intro exI[of _ p] exI[of _ printed]) simp
  next
    case False
    with assms p have
      "godot_scan_loop buildDir es (obj_set platforms t (path_join buildDir f))
         (out @ [Detected (g_name p) (toLowerCase f)] @ []) = Inr r"
      by (simp add: Let_def)
    then show ?thesis
      by (intro exI[of _ p] exI[of _ "[]"]) simp
  qed
qed

lemma godot_scan_loop_result:
  "godot_scan_loop buildDir es platforms out = Inr (platforms', out') \<Longrightarrow>
   platforms' = assign_all buildDir (godot_classified es) platforms \<and>
   filter is_Unknown out' =
     filter is_Unknown out @ map (\<lambda>f. Unknown (toLowerCase f)) (godot_unclassified es)"
proof (induction es arbitrary: platforms out)
  case Nil
  then show ?case by (simp add: godot_classified_def godot_unclassified_def assign_all_def map_filter_simps)
next
  case (Cons e es)
  obtain f c where e: "e = (f, c)" by (cases e)
  show ?case
  proof (cases "godot_detectPlatform c")
    case None
    with Cons.prems e have
      "godot_scan_loop buildDir es platforms (out @ [Unknown (toLowerCase f)]) = Inr (platforms', out')"
      by simp
    from Cons.IH[OF this] None show ?thesis
      by (simp add: e godot_classified_Cons godot_unclassified_Cons)
  next
    case (Some t)
    from godot_scan_loop_Some[OF Some Cons.prems[unfolded e]] obtain p :: godot_platform and printed where
      "godot_scan_loop buildDir es (obj_set platforms t (path_join buildDir f))
         (out @ [Detected (g_name p) (toLowerCase f)] @ printed) = Inr (platforms', out')"
      and "filter is_Unknown printed = []"
      by blast
    from Cons.IH[OF this(1)] this(2) Some show ?thesis
      by (simp add: e godot_classified_Cons godot_unclassified_Cons assign_all_Cons)
  qed
qed

lemma renpy_classified_Cons:
  "renpy_classified ((f, c) # es) =
     (case renpy_detectPlatform f c of None \<Rightarrow> renpy_classified es | Some t \<Rightarrow> (t, f) # renpy_classified es)"
  by (simp add: renpy_classified_def map_filter_simps split: option.splits)

lemma renpy_unclassified_Cons:
  "renpy_unclassified ((f, c) # es) =
     (case renpy_detectPlatform f c of None \<Rightarrow> f # renpy_unclassified es | Some t \<Rightarrow> renpy_unclassified es)"
  by (simp add: renpy_unclassified_def split: option.splits)

lemma renpy_scan_loop_Some:
  assumes "renpy_detectPlatform f c = Some t"
    and "renpy_scan_loop buildDir ((f, c) # es) builds out = Inr r"
  shows "\<exists>(p::renpy_platform) printed.
           renpy_scan_loop buildDir es (obj_set builds t (path_join buildDir f))
             (out @ [Detected (r_name p) f] @ printed) = Inr r \<and>
           filter is_Unknown printed = []"
proof -
  from assms obtain p where p: "obj_get renpy_PLATFORMS t = Some p"
    by (cases "obj_get renpy_PLATFORMS t") (auto simp: Let_def)
  show ?thesis
  proof (cases "t = ''web''")
    case True
    with assms p obtain ok printed where c: "checkWebBuild c = Inr (ok, printed)"
      by (cases "checkWebBuild c") (auto simp: Let_def)
    with assms p True have
      "renpy_scan_loop buildDir es (obj_set builds t (path_join buildDir f))
         (out @ [Detected (r_name p) f] @ printed) = Inr r"
      by (simp add: Let_def)
    with checkWebBuild_no_Unknown[OF c] show ?thesis
      by (intro exI[of _ p] exI[of _ printed]) simp
  next
    case False
    obtain ok printed where c: "checkDesktopBuild c t = (ok, printed)"
      by (cases "checkDesktopBuild c t")
    with assms p False have
      "renpy_scan_loop buildDir es (obj_set builds t (path_join buildDir f))
         (out @ [Detected (r_name p) f] @ printed) = Inr r"
      by (simp add: Let_def)
    with checkDesktopBuild_no_Unknown[OF c] show ?thesis
      by (intro exI[of _ p] exI[of _ printed]) simp
  qed
qed

lemma renpy_scan_loop_result:
  "renpy_scan_loop buildDir es builds out = Inr (builds', out') \<Longrightarrow>
   builds' = assign_all buildDir (renpy_classified es) builds \<and>
   filter is_Unknown out' = filter is_Unknown out @ map Unknown (renpy_unclassified es)"
proof (induction es arbitrary: builds out)
  case Nil
  then show ?case by (simp add: renpy_classified_def renpy_unclassified_def assign_all_def map_filter_simps)
next
  case (Cons e es)
  obtain f c where e: "e = (f, c)" by (cases e)
  show ?case
  proof (cases "renpy_detectPlatform f c")
    case None
    with Cons.prems e have
      "renpy_scan_loop buildDir es builds (out @ [Unknown f]) = Inr (builds', out')"
      by simp
    from Cons.IH[OF this] None show ?thesis
      by (simp add: e renpy_classified_Cons renpy_unclassified_Cons)
  next
    case (Some t)
    from renpy_scan_loop_Some[OF Some Cons.prems[unfolded e]] obtain p :: renpy_platform and printed where
      "renpy_scan_loop buildDir es (obj_set builds t (path_join buildDir f))
         (out @ [Detected (r_name p) f] @ printed) = Inr (builds', out')"
      and "filter is_Unknown printed = []"
      by blast
    from Cons.IH[OF this(1)] this(2) Some show ?thesis
      by (simp add: e renpy_classified_Cons renpy_unclassified_Cons assign_all_Cons)
  qed
qed

lemma godot_detect_known:
  "godot_detectPlatform c = Some t \<Longrightarrow> t \<in> set (Object_keys godot_PLATFORMS)"
  by (auto simp: godot_detectPlatform_def Let_def Object_keys_def godot_PLATFORMS_def split: if_splits)

lemma renpy_detect_known:
  "renpy_detectPlatform f c = Some t \<Longrightarrow> t \<in> set (Object_keys renpy_PLATFORMS)"
  by (auto simp: renpy_detectPlatform_def renpy_name_hint_def Let_def Object_keys_def
      Object_entries_def renpy_PLATFORMS_def split: if_splits option.splits)

lemma obj_get_known: "t \<in> set (Object_keys tab) \<Longrightarrow> \<exists>p. obj_get tab t = Some p"
  unfolding Object_keys_def obj_get_def
  by (metis map_of_eq_None_iff not_None_eq set_map)

lemma godot_classified_known:
  "fst ` set (godot_classified es) \<subseteq> set (Object_keys godot_PLATFORMS)"
  by (induction es) (auto simp: godot_classified_Cons godot_classified_def map_filter_simps
      split: option.splits dest: godot_detect_known)

lemma renpy_classified_known:
  "fst ` set (renpy_classified es) \<subseteq> set (Object_keys renpy_PLATFORMS)"
  by (induction es) (auto simp: renpy_classified_Cons renpy_classified_def map_filter_simps
      split: option.splits dest: renpy_detect_known)

lemma godot_counts:
  "length (godot_classified es) + length (godot_unclassified es) = length es"
  by (induction es) (auto simp: godot_classified_Cons godot_unclassified_Cons
      godot_classified_def godot_unclassified_def map_filter_simps split: option.splits)

lemma renpy_counts:
  "length (renpy_classified es) + length (renpy_unclassified es) = length es"
  by (induction es) (auto simp: renpy_classified_Cons renpy_unclassified_Cons
      renpy_classified_def renpy_unclassified_def map_filter_simps split: option.splits)

lemma length_keys_assign_all_le: "length (assign_all b cls []) \<le> length cls"
proof -
  have "length (assign_all b cls []) = length (map fst (assign_all b cls []))" by simp
  also have "\<dots> = card (set (map fst cls))"
    by (simp only: keys_assign_all length_first_occurrences)
  also have "\<dots> \<le> length (map fst cls)" by (rule card_length)
  finally show ?thesis by simp
qed

lemma godot_push_lines_known:
  "fst ` set platforms \<subseteq> set (Object_keys godot_PLATFORMS) \<Longrightarrow>
   godot_push_lines platforms target =
     Inr (map (\<lambda>(t, d). butler_push d target (godot_channel t)) platforms)"
proof (induction platforms)
  case Nil
  then show ?case by simp
next
  case (Cons a platforms)
  obtain t d where a: "a = (t, d)" by (cases a)
  from Cons.prems a obtain p where "obj_get godot_PLATFORMS t = Some p"
    using obj_get_known[of t godot_PLATFORMS] by auto
  with Cons a show ?case by (simp add: godot_channel_def)
qed

lemma path_join_inj: "path_join b f = path_join b f' \<Longrightarrow> f = f'"
  by (simp add: path_join_def)

lemma distinct_keys_assign_all: "distinct (map fst (assign_all b cls []))"
  by (simp add: keys_assign_all distinct_first_occurrences)

lemma assign_all_last:
  assumes "cls = pre @ [(t, f)] @ post" and "t \<notin> fst ` set post"
  shows "map_of (assign_all b cls []) t = Some (path_join b f)"
proof -
  have "map_of (rev (map (\<lambda>(t, f). (t, path_join b f)) post)) t = None"
    using assms(2) by (force simp: map_of_eq_None_iff)
  then show ?thesis
    unfolding map_of_assign_all assms(1)
    by (simp add: map_add_def)
qed

lemma assign_all_value_from:
  assumes "(k, v) \<in> set (assign_all b cls [])"
  shows "\<exists>f pre post. v = path_join b f \<and> cls = pre @ [(k, f)] @ post \<and> k \<notin> fst ` set post"
proof -
  from assms have m: "map_of (assign_all b cls []) k = Some v"
    using distinct_keys_assign_all by simp
  then have "k \<in> fst ` set cls"
    unfolding map_of_assign_all
    by (force dest: map_of_SomeD)
  then obtain pre f post where sp: "cls = pre @ [(k, f)] @ post" "k \<notin> fst ` set post"
    using split_list_last[of k "map fst cls"]
    by (auto simp: map_eq_append_conv Cons_eq_map_conv) 
  from assign_all_last[OF sp] m have "v = path_join b f" by simp
  with sp show ?thesis by blast
qed

lemma split_unique:
  assumes "xs @ [a] @ ys = xs' @ [a'] @ ys'"
    and "snd a = snd a'"
    and "snd a \<notin> snd ` set xs" and "snd a \<notin> snd ` set ys"
  shows "xs = xs' \<and> a = a' \<and> ys = ys'"
  using assms
proof (induction xs arbitrary: xs')
  case Nil
  then show ?case by (cases xs') (auto simp: image_iff)
next
  case (Cons x xs)
  then show ?case by (cases xs') (auto simp: image_iff)
qed

lemma assign_all_superseded:
  assumes d: "distinct (map snd cls)"
    and sp: "cls = pre @ [(t, f)] @ post"
    and e: "(t, f') \<in> set pre"
  shows "path_join b f' \<notin> snd ` set (assign_all b cls [])"
proof
  assume "path_join b f' \<in> snd ` set (assign_all b cls [])"
  then obtain k where "(k, path_join b f') \<in> set (assign_all b cls [])" by force
  from assign_all_value_from[OF this] obtain g pre' post' where
    g: "path_join b f' = path_join b g" "cls = pre' @ [(k, g)] @ post'" "k \<notin> fst ` set post'"
    by blast
  from path_join_inj[OF g(1)] have gf: "g = f'" by simp
  from e obtain p1 p2 where pre: "pre = p1 @ [(t, f')] @ p2"
    by (metis append_Cons append_Nil split_list)
  have cls: "cls = p1 @ [(t, f')] @ (p2 @ [(t, f)] @ post)"
    by (simp add: sp pre)
  from d have n1: "f' \<notin> snd ` set p1" and n2: "f' \<notin> snd ` set (p2 @ [(t, f)] @ post)"
    unfolding cls by auto
  from split_unique[of p1 "(t, f')" "p2 @ [(t, f)] @ post" pre' "(k, g)" post']
    cls g(2) gf n1 n2
  have "k = t" and "post' = p2 @ [(t, f)] @ post" by auto
  with g(3) show False by simp
qed

lemma dir_entries_names: "fst ` set (dir_entries children) \<subseteq> fst ` set children"
  by (induction children rule: dir_entries.induct) auto

lemma distinct_dir_entries: "distinct (map fst children) \<Longrightarrow> distinct (map fst (dir_entries children))"
  using dir_entries_names by (induction children rule: dir_entries.induct) auto

lemma godot_classified_Nil: "godot_classified [] = []"
  by (simp add: godot_classified_def map_filter_simps)

lemma renpy_classified_Nil: "renpy_classified [] = []"
  by (simp add: renpy_classified_def map_filter_simps)

lemma godot_classified_names: "(t, f) \<in> set (godot_classified es) \<Longrightarrow> f \<in> fst ` set es"
  by (induction es) (auto simp: godot_classified_Cons godot_classified_Nil split: option.splits)

lemma godot_unclassified_names: "f \<in> set (godot_unclassified es) \<Longrightarrow> f \<in> fst ` set es"
  by (auto simp: godot_unclassified_def)

lemma distinct_godot_classified:
  "distinct (map fst es) \<Longrightarrow> distinct (map snd (godot_classified es))"
proof (induction es)
  case Nil
  then show ?case by (simp add: godot_classified_Nil)
next
  case (Cons e es)
  obtain f c where e: "e = (f, c)" by (cases e)
  from Cons.prems e have "f \<notin> fst ` set es" "distinct (map fst es)" by auto
  with Cons.IH godot_classified_names[of _ f es] show ?case
    by (auto simp: e godot_classified_Cons split: option.splits)
qed

lemma godot_classified_not_unclassified:
  "distinct (map fst es) \<Longrightarrow> (t, f) \<in> set (godot_classified es) \<Longrightarrow> f \<notin> set (godot_unclassified es)"
  by (induction es)
    (auto simp: godot_classified_Cons godot_classified_Nil godot_unclassified_Cons
      split: option.splits dest: godot_classified_names godot_unclassified_names)

lemma renpy_classified_names: "(t, f) \<in> set (renpy_classified es) \<Longrightarrow> f \<in> fst ` set es"
  by (induction es) (auto simp: renpy_classified_Cons renpy_classified_Nil split: option.splits)

lemma renpy_unclassified_names: "f \<in> set (renpy_unclassified es) \<Longrightarrow> f \<in> fst ` set es"
  by (auto simp: renpy_unclassified_def)

lemma distinct_renpy_classified:
  "distinct (map fst es) \<Longrightarrow> distinct (map snd (renpy_classified es))"
proof (induction es)
  case Nil
  then show ?case by (simp add: renpy_classified_Nil)
next
  case (Cons e es)
  obtain f c where e: "e = (f, c)" by (cases e)
  from Cons.prems e have "f \<notin> fst ` set es" "distinct (map fst es)" by auto
  with Cons.IH renpy_classified_names[of _ f es] show ?case
    by (auto simp: e renpy_classified_Cons split: option.splits)
qed

lemma renpy_classified_not_unclassified:
  "distinct (map fst es) \<Longrightarrow> (t, f) \<in> set (renpy_classified es) \<Longrightarrow> f \<notin> set (renpy_unclassified es)"
  by (induction es)
    (auto simp: renpy_classified_Cons renpy_classified_Nil renpy_unclassified_Cons
      split: option.splits dest: renpy_classified_names renpy_unclassified_names)

lemma scanBuildDir_result:
  assumes "scanBuildDir buildDir (Dir children) = Inr (platforms, printed)"
  shows "platforms = assign_all buildDir (godot_classified (dir_entries children)) []"
    and "filter is_Unknown printed =
           map (\<lambda>f. Unknown (toLowerCase f)) (godot_unclassified (dir_entries children))"
  using godot_scan_loop_result[of buildDir "dir_entries children" "[]" "[]" platforms printed] assms
  by (simp_all add: scanBuildDir_def)

lemma scanBuilds_result:
  assumes "scanBuilds buildDir (Dir children) = Inr (builds, printed)"
  shows "builds = assign_all buildDir (renpy_classified (dir_entries children)) []"
    and "filter is_Unknown printed = map Unknown (renpy_unclassified (dir_entries children))"
  using renpy_scan_loop_result[of buildDir "dir_entries children" "[]" "[]" builds printed] assms
  by (simp_all add: scanBuilds_def)

lemma assign_all_counts:
  "length (Object_keys (assign_all b cls [])) = card (fst ` set cls)"
  "length (Object_keys (assign_all b cls [])) \<le> length cls"
  "distinct (map fst cls) \<Longrightarrow> length (Object_keys (assign_all b cls [])) = length cls"
proof -
  show "length (Object_keys (assign_all b cls [])) = card (fst ` set cls)"
    by (simp add: Object_keys_def keys_assign_all length_first_occurrences del: length_map)
  show "length (Object_keys (assign_all b cls [])) \<le> length cls"
    using length_keys_assign_all_le[of b cls] by (simp add: Object_keys_def)
  show "distinct (map fst cls) \<Longrightarrow> length (Object_keys (assign_all b cls [])) = length cls"
    by (simp add: Object_keys_def keys_assign_all first_occurrences_distinct del: length_map)
      (metis length_map)
qed

text \<open>
  Claim C4, as the code has it, for a scan that returns. The mapping is keyed by platform
  tag, so it has one entry per distinct tag among the child directories that classify:
  never more than their number \<open>N\<close>, and exactly \<open>N\<close> when their tags are pairwise
  distinct. No list of unmatched directories is returned; the scan prints one \<open>Unknown\<close>
  line per child directory that does not classify, \<open>M\<close> lines in all, and \<open>N + M\<close> is the
  number of child directories.
\<close>

theorem scan_entry_counts:
  "(scanBuildDir buildDir (Dir children) = Inr (platforms, printed) \<longrightarrow>
      length (Object_keys platforms) = card (fst ` set (godot_classified (dir_entries children))) \<and>
      length (Object_keys platforms) \<le> length (godot_classified (dir_entries children)) \<and>
      (distinct (map fst (godot_classified (dir_entries children))) \<longrightarrow>
         length (Object_keys platforms) = length (godot_classified (dir_entries children))) \<and>
      length (filter is_Unknown printed) = length (godot_unclassified (dir_entries children))) \<and>
   (scanBuilds buildDir (Dir children) = Inr (builds, printed') \<longrightarrow>
      length (Object_keys builds) = card (fst ` set (renpy_classified (dir_entries children))) \<and>
      length (Object_keys builds) \<le> length (renpy_classified (dir_entries children)) \<and>
      (distinct (map fst (renpy_classified (dir_entries children))) \<longrightarrow>
         length (Object_keys builds) = length (renpy_classified (dir_entries children))) \<and>
      length (filter is_Unknown printed') = length (renpy_unclassified (dir_entries children))) \<and>
   length (godot_classified (dir_entries children)) + length (godot_unclassified (dir_entries children))
     = length (dir_entries children) \<and>
   length (renpy_classified (dir_entries children)) + length (renpy_unclassified (dir_entries children))
     = length (dir_entries children)"
proof (intro conjI impI)
  assume s: "scanBuildDir buildDir (Dir children) = Inr (platforms, printed)"
  note r = scanBuildDir_result[OF s]
  show "length (Object_keys platforms) = card (fst ` set (godot_classified (dir_entries children)))"
    unfolding r(1) by (rule assign_all_counts)
  show "length (Object_keys platforms) \<le> length (godot_classified (dir_entries children))"
    unfolding r(1) by (rule assign_all_counts)
  show "length (Object_keys platforms) = length (godot_classified (dir_entries children))"
    if "distinct (map fst (godot_classified (dir_entries children)))"
    unfolding r(1) using that by (rule assign_all_counts)
  show "length (filter is_Unknown printed) = length (godot_unclassified (dir_entries children))"
    unfolding r(2) by simp
next
  assume s: "scanBuilds buildDir (Dir children) = Inr (builds, printed')"
  note r = scanBuilds_result[OF s]
  show "length (Object_keys builds) = card (fst ` set (renpy_classified (dir_entries children)))"
    unfolding r(1) by (rule assign_all_counts)
  show "length (Object_keys builds) \<le> length (renpy_classified (dir_entries children))"
    unfolding r(1) by (rule assign_all_counts)
  show "length (Object_keys builds) = length (renpy_classified (dir_entries children))"
    if "distinct (map fst (renpy_classified (dir_entries children)))"
    unfolding r(1) using that by (rule assign_all_counts)
  show "length (filter is_Unknown printed') = length (renpy_unclassified (dir_entries children))"
    unfolding r(2) by simp
next
  show "length (godot_classified (dir_entries children)) + length (godot_unclassified (dir_entries children))
     = length (dir_entries children)" by (rule godot_counts)
  show "length (renpy_classified (dir_entries children)) + length (renpy_unclassified (dir_entries children))
     = length (dir_entries children)" by (rule renpy_counts)
qed

theorem scan_entry_counts_witness:
  "scanBuildDir ''build''
     (Dir [(''windows'', Dir [(''game.exe'', File [])]), (''web'', Dir [(''index.html'', File [])]),
           (''notes'', Dir [(''readme.txt'', File [])]), (''README'', File [])]) =
     Inr ([(''windows'', ''build/windows''), (''web'', ''build/web'')],
          [Detected ''Windows Desktop'' ''windows'', Detected ''Web (HTML5)'' ''web'',
           Info ''   Web export missing CORS fix (coi-serviceworker.js)'',
           Info ''   Get it from: https://github.com/gzuidhof/coi-serviceworker'',
           Unknown ''notes'']) \<and>
   length (godot_classified (dir_entries
     [(''windows'', Dir [(''game.exe'', File [])]), (''web'', Dir [(''index.html'', File [])]),
      (''notes'', Dir [(''readme.txt'', File [])]), (''README'', File [])])) = 2 \<and>
   length (godot_unclassified (dir_entries
     [(''windows'', Dir [(''game.exe'', File [])]), (''web'', Dir [(''index.html'', File [])]),
      (''notes'', Dir [(''readme.txt'', File [])]), (''README'', File [])])) = 1 \<and>
   length (dir_entries
     [(''windows'', Dir [(''game.exe'', File [])]), (''web'', Dir [(''index.html'', File [])]),
      (''notes'', Dir [(''readme.txt'', File [])]), (''README'', File [])]) = 3 \<and>
   length (Object_keys [(''windows'', ''build/windows''), (''web'', ''build/web'')]) = 2"
proof -
  let ?T = "[(''windows'', Dir [(''game.exe'', File [])]), (''web'', Dir [(''index.html'', File [])]),
             (''notes'', Dir [(''readme.txt'', File [])]), (''README'', File [])]"
  have g: "scanBuildDir ''build'' (Dir ?T) =
     Inr ([(''windows'', ''build/windows''), (''web'', ''build/web'')],
          [Detected ''Windows Desktop'' ''windows'', Detected ''Web (HTML5)'' ''web'',
           Info ''   Web export missing CORS fix (coi-serviceworker.js)'',
           Info ''   Get it from: https://github.com/gzuidhof/coi-serviceworker'',
           Unknown ''notes''])"
    by code_simp
  have r: "scanBuilds ''build'' (Dir ?T) =
     Inr ([(''pc'', ''build/windows''), (''web'', ''build/web'')],
      [Detected ''Windows'' ''windows'', Info ''   Launcher: game.exe'',
       Detected ''Web'' ''web'', Info ''   index.html: KB'',
       Info ''   files total'', Unknown ''notes''])"
    by code_simp
  have c: "godot_classified (dir_entries ?T) = [(''windows'', ''windows''), (''web'', ''web'')]"
    by code_simp
  have u: "godot_unclassified (dir_entries ?T) = [''notes'']"
    by code_simp
  show ?thesis
    using scan_entry_counts[of "''build''" ?T
        "[(''windows'', ''build/windows''), (''web'', ''build/web'')]"
        "[Detected ''Windows Desktop'' ''windows'', Detected ''Web (HTML5)'' ''web'',
           Info ''   Web export missing CORS fix (coi-serviceworker.js)'',
           Info ''   Get it from: https://github.com/gzuidhof/coi-serviceworker'',
           Unknown ''notes'']"
        "[(''pc'', ''build/windows''), (''web'', ''build/web'')]"
        "[Detected ''Windows'' ''windows'', Info ''   Launcher: game.exe'',
       Detected ''Web'' ''web'', Info ''   index.html: KB'',
       Info ''   files total'', Unknown ''notes'']"] g r c u
    by simp
qed

text \<open>
  Claim C4 as stated fails: two child directories classify (\<open>N = 2\<close>, \<open>M = 0\<close>), both as
  windows, and the mapping has one entry.
\<close>

theorem scan_entry_counts_counterexample:
  "length (godot_classified (dir_entries
     [(''a-win'', Dir [(''game.exe'', File [])]), (''c-win'', Dir [(''g.exe'', File [])])])) = 2 \<and>
   length (godot_unclassified (dir_entries
     [(''a-win'', Dir [(''game.exe'', File [])]), (''c-win'', Dir [(''g.exe'', File [])])])) = 0 \<and>
   scanBuildDir ''build''
     (Dir [(''a-win'', Dir [(''game.exe'', File [])]), (''c-win'', Dir [(''g.exe'', File [])])]) =
     Inr ([(''windows'', ''build/c-win'')],
          [Detected ''Windows Desktop'' ''a-win'', Detected ''Windows Desktop'' ''c-win'']) \<and>
   length (Object_keys [(''windows'', ''build/c-win'')]) = 1"
  by code_simp

text \<open>
  Claim C3, as the code has it. The keys of the mapping a scan returns stand in the order
  in which the tags are first met in the enumeration of the child directories, and
  \<open>generateCommands\<close> of \<open>godot-export.js\<close> prints one \<open>butler push\<close> line per entry
  in that order. \<open>scanBuilds\<close> of \<open>renpy-publish.js\<close> orders its mapping the same way,
  but that script does not parse and prints no command at all.
\<close>

theorem command_order:
  "(scanBuildDir buildDir (Dir children) = Inr (platforms, printed) \<longrightarrow>
      Object_keys platforms =
        first_occurrences (map fst (godot_classified (dir_entries children))) \<and>
      godot_generateCommands platforms target =
        Inr ([Info ''Butler commands:''] @
             map (\<lambda>(t, d). Info (butler_push d target (godot_channel t))) (Object_entries platforms) @
             [Info ''# Check status after upload:'', Info (butler_status target)])) \<and>
   (scanBuilds buildDir (Dir children) = Inr (builds, printed') \<longrightarrow>
      Object_keys builds =
        first_occurrences (map fst (renpy_classified (dir_entries children)))) \<and>
   snd (renpy_main argv2 argv3 fs) = []"
proof (intro conjI impI)
  assume s: "scanBuildDir buildDir (Dir children) = Inr (platforms, printed)"
  note r = scanBuildDir_result[OF s]
  show k: "Object_keys platforms =
        first_occurrences (map fst (godot_classified (dir_entries children)))"
    unfolding r(1) Object_keys_def by (rule keys_assign_all)
  have "fst ` set platforms \<subseteq> set (Object_keys godot_PLATFORMS)"
    using k godot_classified_known[of "dir_entries children"]
    by (metis Object_keys_def list.set_map set_first_occurrences)
  from godot_push_lines_known[OF this]
  show "godot_generateCommands platforms target =
        Inr ([Info ''Butler commands:''] @
             map (\<lambda>(t, d). Info (butler_push d target (godot_channel t))) (Object_entries platforms) @
             [Info ''# Check status after upload:'', Info (butler_status target)])"
    by (simp add: godot_generateCommands_def Object_entries_def case_prod_unfold comp_def)
next
  assume s: "scanBuilds buildDir (Dir children) = Inr (builds, printed')"
  note r = scanBuilds_result[OF s]
  show "Object_keys builds =
        first_occurrences (map fst (renpy_classified (dir_entries children)))"
    unfolding r(1) Object_keys_def by (rule keys_assign_all)
next
  show "snd (renpy_main argv2 argv3 fs) = []" by (simp add: renpy_main_def)
qed

text \<open>
  Claim C3 as stated fails: with \<open>web\<close> enumerated before \<open>windows\<close> the commands come out
  web first, while the declaration order of \<open>PLATFORMS\<close> puts windows first; and these two
  directories enumerated the other way round give the mapping in the other order.
\<close>

theorem command_order_counterexample:
  "scanBuildDir ''build''
     (Dir [(''web'', Dir [(''index.html'', File [])]), (''windows'', Dir [(''game.exe'', File [])])]) =
     Inr ([(''web'', ''build/web''), (''windows'', ''build/windows'')],
          [Detected ''Web (HTML5)'' ''web'',
           Info ''   Web export missing CORS fix (coi-serviceworker.js)'',
           Info ''   Get it from: https://github.com/gzuidhof/coi-serviceworker'',
           Detected ''Windows Desktop'' ''windows'']) \<and>
   godot_generateCommands [(''web'', ''build/web''), (''windows'', ''build/windows'')] ''alice/mygame'' =
     Inr [Info ''Butler commands:'',
          Info (butler_push ''build/web'' ''alice/mygame'' ''html5''),
          Info (butler_push ''build/windows'' ''alice/mygame'' ''windows''),
          Info ''# Check status after upload:'', Info (butler_status ''alice/mygame'')] \<and>
   spec_declaration_order godot_PLATFORMS
     (Object_keys [(''web'', ''build/web''), (''windows'', ''build/windows'')]) = [''windows'', ''web''] \<and>
   Object_keys [(''web'', ''build/web''), (''windows'', ''build/windows'')] \<noteq> [''windows'', ''web''] \<and>
   scanBuildDir ''build''
     (Dir [(''windows'', Dir [(''game.exe'', File [])]), (''web'', Dir [(''index.html'', File [])])]) =
     Inr ([(''windows'', ''build/windows''), (''web'', ''build/web'')],
          [Detected ''Windows Desktop'' ''windows'', Detected ''Web (HTML5)'' ''web'',
           Info ''   Web export missing CORS fix (coi-serviceworker.js)'',
           Info ''   Get it from: https://github.com/gzuidhof/coi-serviceworker''])"
  by code_simp

theorem command_order_witness:
  "scanBuildDir ''build''
     (Dir [(''web'', Dir [(''index.html'', File ''coi-serviceworker'')]),
           (''win1'', Dir [(''a.exe'', File [])]), (''win2'', Dir [(''b.exe'', File [])])]) =
     Inr ([(''web'', ''build/web''), (''windows'', ''build/win2'')],
          [Detected ''Web (HTML5)'' ''web'', Detected ''Windows Desktop'' ''win1'',
           Detected ''Windows Desktop'' ''win2'']) \<and>
   map fst (godot_classified (dir_entries
     [(''web'', Dir [(''index.html'', File ''coi-serviceworker'')]),
      (''win1'', Dir [(''a.exe'', File [])]), (''win2'', Dir [(''b.exe'', File [])])])) =
     [''web'', ''windows'', ''windows''] \<and>
   Object_keys [(''web'', ''build/web''), (''windows'', ''build/win2'')] = [''web'', ''windows''] \<and>
   godot_generateCommands [(''web'', ''build/web''), (''windows'', ''build/win2'')] ''alice/mygame'' =
     Inr [Info ''Butler commands:'',
          Info (butler_push ''build/web'' ''alice/mygame'' ''html5''),
          Info (butler_push ''build/win2'' ''alice/mygame'' ''windows''),
          Info ''# Check status after upload:'', Info (butler_status ''alice/mygame'')]"
proof -
  let ?T = "[(''web'', Dir [(''index.html'', File ''coi-serviceworker'')]),
             (''win1'', Dir [(''a.exe'', File [])]), (''win2'', Dir [(''b.exe'', File [])])]"
  have g: "scanBuildDir ''build'' (Dir ?T) =
     Inr ([(''web'', ''build/web''), (''windows'', ''build/win2'')],
          [Detected ''Web (HTML5)'' ''web'', Detected ''Windows Desktop'' ''win1'',
           Detected ''Windows Desktop'' ''win2''])"
    by code_simp
  have c: "map fst (godot_classified (dir_entries ?T)) = [''web'', ''windows'', ''windows'']"
    by code_simp
  have ch: "godot_channel ''web'' = ''html5''" "godot_channel ''windows'' = ''windows''"
    by code_simp+
  show ?thesis
    using command_order[of "''build''" ?T "[(''web'', ''build/web''), (''windows'', ''build/win2'')]"
        "[Detected ''Web (HTML5)'' ''web'', Detected ''Windows Desktop'' ''win1'',
           Detected ''Windows Desktop'' ''win2'']" "''alice/mygame''"] g c ch
    by (simp add: Object_entries_def)
qed

text \<open>
  Claim C10. Let the child directories have distinct names, and let the directory \<open>f\<close> be
  the last one in enumeration order that classifies to the tag \<open>t\<close>, with an earlier
  directory \<open>f'\<close> classifying to \<open>t\<close> as well. Then the mapping holds the path of \<open>f\<close>
  under \<open>t\<close>, each tag once; the path of \<open>f'\<close> is not among the directories of the mapping
  (the ones \<open>generateCommands\<close> prints a command for); and \<open>f'\<close> is not among the
  directories reported as unknown, which are exactly those that do not classify.
\<close>

theorem last_directory_wins:
  assumes "distinct (map fst children)"
  shows
    "(scanBuildDir buildDir (Dir children) = Inr (platforms, printed) \<and>
      godot_classified (dir_entries children) = pre @ [(t, f)] @ post \<and>
      t \<notin> fst ` set post \<and> (t, f') \<in> set pre \<longrightarrow>
        obj_get platforms t = Some (path_join buildDir f) \<and>
        distinct (Object_keys platforms) \<and>
        path_join buildDir f' \<notin> snd ` set (Object_entries platforms) \<and>
        f' \<notin> set (godot_unclassified (dir_entries children)) \<and>
        filter is_Unknown printed =
          map (\<lambda>f. Unknown (toLowerCase f)) (godot_unclassified (dir_entries children))) \<and>
     (scanBuilds buildDir (Dir children) = Inr (builds, printed') \<and>
      renpy_classified (dir_entries children) = pre @ [(t, f)] @ post \<and>
      t \<notin> fst ` set post \<and> (t, f') \<in> set pre \<longrightarrow>
        obj_get builds t = Some (path_join buildDir f) \<and>
        distinct (Object_keys builds) \<and>
        path_join buildDir f' \<notin> snd ` set (Object_entries builds) \<and>
        f' \<notin> set (renpy_unclassified (dir_entries children)) \<and>
        filter is_Unknown printed' = map Unknown (renpy_unclassified (dir_entries children)))"
proof (intro conjI impI; elim conjE)
  note de = distinct_dir_entries[OF assms]
  {
    assume s: "scanBuildDir buildDir (Dir children) = Inr (platforms, printed)"
      and sp: "godot_classified (dir_entries children) = pre @ [(t, f)] @ post"
      and l: "t \<notin> fst ` set post" and e: "(t, f') \<in> set pre"
    note r = scanBuildDir_result[OF s]
    show "obj_get platforms t = Some (path_join buildDir f)"
      unfolding r(1) obj_get_def using sp l by (rule assign_all_last)
    show "distinct (Object_keys platforms)"
      unfolding r(1) Object_keys_def by (rule distinct_keys_assign_all)
    show "path_join buildDir f' \<notin> snd ` set (Object_entries platforms)"
      unfolding r(1) Object_entries_def
      using distinct_godot_classified[OF de] sp e by (rule assign_all_superseded)
    show "f' \<notin> set (godot_unclassified (dir_entries children))"
      using de by (rule godot_classified_not_unclassified[where t = t]) (simp add: sp e)
    show "filter is_Unknown printed =
          map (\<lambda>f. Unknown (toLowerCase f)) (godot_unclassified (dir_entries children))"
      by (rule r(2))
  }
  {
    assume s: "scanBuilds buildDir (Dir children) = Inr (builds, printed')"
      and sp: "renpy_classified (dir_entries children) = pre @ [(t, f)] @ post"
      and l: "t \<notin> fst ` set post" and e: "(t, f') \<in> set pre"
    note r = scanBuilds_result[OF s]
    show "obj_get builds t = Some (path_join buildDir f)"
      unfolding r(1) obj_get_def using sp l by (rule assign_all_last)
    show "distinct (Object_keys builds)"
      unfolding r(1) Object_keys_def by (rule distinct_keys_assign_all)
    show "path_join buildDir f' \<notin> snd ` set (Object_entries builds)"
      unfolding r(1) Object_entries_def
      using distinct_renpy_classified[OF de] sp e by (rule assign_all_superseded)
    show "f' \<notin> set (renpy_unclassified (dir_entries children))"
      using de by (rule renpy_classified_not_unclassified[where t = t]) (simp add: sp e)
    show "filter is_Unknown printed' = map Unknown (renpy_unclassified (dir_entries children))"
      by (rule r(2))
  }
qed

theorem last_directory_wins_witness:
  "distinct (map fst [(''a-win'', Dir [(''game.exe'', File [])]), (''c-win'', Dir [(''g.exe'', File [])])]) \<and>
   scanBuildDir ''build''
     (Dir [(''a-win'', Dir [(''game.exe'', File [])]), (''c-win'', Dir [(''g.exe'', File [])])]) =
     Inr ([(''windows'', ''build/c-win'')],
          [Detected ''Windows Desktop'' ''a-win'', Detected ''Windows Desktop'' ''c-win'']) \<and>
   godot_classified (dir_entries
     [(''a-win'', Dir [(''game.exe'', File [])]), (''c-win'', Dir [(''g.exe'', File [])])]) =
     [(''windows'', ''a-win'')] @ [(''windows'', ''c-win'')] @ [] \<and>
   obj_get [(''windows'', ''build/c-win'')] ''windows'' = Some (path_join ''build'' ''c-win'') \<and>
   path_join ''build'' ''a-win'' \<notin> snd ` set (Object_entries [(''windows'', ''build/c-win'')]) \<and>
   scanBuilds ''build''
     (Dir [(''a-win'', Dir [(''game.exe'', File [])]), (''c-win'', Dir [(''g.exe'', File [])])]) =
     Inr ([(''pc'', ''build/c-win'')],
          [Detected ''Windows'' ''a-win'', Info ''   Launcher: game.exe'',
           Detected ''Windows'' ''c-win'', Info ''   Launcher: g.exe'']) \<and>
   obj_get [(''pc'', ''build/c-win'')] ''pc'' = Some (path_join ''build'' ''c-win'') \<and>
   path_join ''build'' ''a-win'' \<notin> snd ` set (Object_entries [(''pc'', ''build/c-win'')])"
proof -
  let ?T = "[(''a-win'', Dir [(''game.exe'', File [])]), (''c-win'', Dir [(''g.exe'', File [])])]"
  have d: "distinct (map fst ?T)" by simp
  have g: "scanBuildDir ''build'' (Dir ?T) =
     Inr ([(''windows'', ''build/c-win'')],
          [Detected ''Windows Desktop'' ''a-win'', Detected ''Windows Desktop'' ''c-win''])"
    by code_simp
  have r: "scanBuilds ''build'' (Dir ?T) =
     Inr ([(''pc'', ''build/c-win'')],
          [Detected ''Windows'' ''a-win'', Info ''   Launcher: game.exe'',
           Detected ''Windows'' ''c-win'', Info ''   Launcher: g.exe''])"
    by code_simp
  have gc: "godot_classified (dir_entries ?T) = [(''windows'', ''a-win'')] @ [(''windows'', ''c-win'')] @ []"
    by code_simp
  have rc: "renpy_classified (dir_entries ?T) = [(''pc'', ''a-win'')] @ [(''pc'', ''c-win'')] @ []"
    by code_simp
  from last_directory_wins[OF d, of "''build''" "[(''windows'', ''build/c-win'')]"
        "[Detected ''Windows Desktop'' ''a-win'', Detected ''Windows Desktop'' ''c-win'']"
        "[(''windows'', ''a-win'')]" "''windows''" "''c-win''" "[]" "''a-win''"] g gc
  have 1: "obj_get [(''windows'', ''build/c-win'')] ''windows'' = Some (path_join ''build'' ''c-win'')"
    "path_join ''build'' ''a-win'' \<notin> snd ` set (Object_entries [(''windows'', ''build/c-win'')])"
    by simp_all
  from last_directory_wins[OF d, of "''build''" _ _ "[(''pc'', ''a-win'')]" "''pc''" "''c-win''" "[]" "''a-win''"
        "[(''pc'', ''build/c-win'')]"
        "[Detected ''Windows'' ''a-win'', Info ''   Launcher: game.exe'',
           Detected ''Windows'' ''c-win'', Info ''   Launcher: g.exe'']"] r rc
  have 2: "obj_get [(''pc'', ''build/c-win'')] ''pc'' = Some (path_join ''build'' ''c-win'')"
    "path_join ''build'' ''a-win'' \<notin> snd ` set (Object_entries [(''pc'', ''build/c-win'')])"
    by simp_all
  from d g gc r 1 2 show ?thesis by blast
qed

section \<open>The publish loop\<close>

text \<open>The definitions a concrete run is evaluated with.\<close>

lemmas publish_eval =
  publish_main_def demo_env_def demo_config_def Let_def checkButler_def run_def
  log_def arr_includes_def Object_entries_def pushChannel_def push_command_def push_run_def
  checkStatus_def summary_def summary_line_def str_includes_def sublist_code quoted_def

lemma log_fields [simp]:
  "world (log m t s) = world s" "executed (log m t s) = executed s"
  "results (log m t s) = results s" "console (log m t s) = console s @ [(t, m)]"
  by (simp_all add: log_def)

lemma run_fields:
  "executed (snd (run E cmd ig s)) = executed s @ [cmd]"
  "results (snd (run E cmd ig s)) = results s"
  "console (snd (run E cmd ig s)) = console s"
  by (auto simp: run_def split: prod.splits sum.splits)

lemma push_run_fields:
  "executed (snd (push_run E channel sourcePath cmd s)) = executed s @ [cmd]"
  "results (snd (push_run E channel sourcePath cmd s)) = results s"
proof -
  let ?s0 = "log (''Pushing '' @ channel @ '' from '' @ sourcePath @ ''...'') ''info'' s"
  obtain r s1 where r: "run E cmd False ?s0 = (r, s1)" by (cases "run E cmd False ?s0")
  from run_fields(1,2)[of E cmd False ?s0] r
  have "executed s1 = executed s @ [cmd]" "results s1 = results s" by simp_all
  with r show "executed (snd (push_run E channel sourcePath cmd s)) = executed s @ [cmd]"
    "results (snd (push_run E channel sourcePath cmd s)) = results s"
    by (simp_all add: push_run_def split: sum.splits)
qed

lemma push_command_ok:
  "opt_ignore opts \<noteq> IgnoreOther \<Longrightarrow> \<exists>cmd. push_command sourcePath target opts = Inr cmd"
  by (cases "opt_ignore opts") (simp_all add: push_command_def Let_def)

lemma fold_append: "fold (\<lambda>p c. c @ g p) ps c = c @ concat (map g ps)"
  by (induction ps arbitrary: c) simp_all

lemma push_command_dry_run:
  assumes "opt_dryRun opts" and "push_command sourcePath target opts = Inr cmd"
  shows "str_includes cmd '' --dry-run''"
proof -
  define D where "D = '' --dry-run''"
  define c where "c = (if \<not> falsy (opt_version opts)
     then (''butler push '' @ quoted sourcePath @ '' '' @ quoted target) @
          '' --userversion '' @ quoted (the (opt_version opts))
     else ''butler push '' @ quoted sourcePath @ '' '' @ quoted target)"
  have pc: "push_command sourcePath target opts =
     (case opt_ignore opts of
        NoIgnore \<Rightarrow> Inr (c @ D)
      | IgnoreArray patterns \<Rightarrow>
          Inr (fold (\<lambda>pattern c. c @ '' --ignore '' @ quoted pattern) patterns (c @ D))
      | IgnoreOther \<Rightarrow> Inl NotAFunction)"
    unfolding push_command_def Let_def c_def D_def using assms(1) by simp
  have "\<exists>rest. cmd = c @ D @ rest"
  proof (cases "opt_ignore opts")
    case NoIgnore
    with pc assms(2) have "cmd = c @ D @ []" by simp
    then show ?thesis by blast
  next
    case (IgnoreArray ps)
    with pc assms(2) have "cmd = fold (\<lambda>pattern c. c @ '' --ignore '' @ quoted pattern) ps (c @ D)"
      by simp
    then have "cmd = c @ D @ concat (map (\<lambda>pattern. '' --ignore '' @ quoted pattern) ps)"
      by (simp only: fold_append append_assoc)
    then show ?thesis by blast
  next
    case IgnoreOther
    with pc assms(2) show ?thesis by simp
  qed
  then show ?thesis
    unfolding str_includes_def sublist_def D_def by blast
qed

lemma pushChannel_missing:
  "\<not> existsSync E (world s) sourcePath \<Longrightarrow>
   pushChannel E user game channel sourcePath opts s =
     (Inr False, log (''Source path not found: '' @ sourcePath) ''warn'' s)"
  by (simp add: pushChannel_def)

lemma pushChannel_present:
  "existsSync E (world s) sourcePath \<Longrightarrow>
   push_command sourcePath (user @ ''/'' @ game @ '':'' @ channel) opts = Inr cmd \<Longrightarrow>
   pushChannel E user game channel sourcePath opts s =
     (Inr (fst (push_run E channel sourcePath cmd s)), snd (push_run E channel sourcePath cmd s))"
  by (simp add: pushChannel_def split: prod.splits)

lemma pushChannel_cases:
  assumes "opt_ignore opts \<noteq> IgnoreOther"
  obtains
    (missing) "\<not> existsSync E (world s) sourcePath"
      "pushChannel E user game channel sourcePath opts s =
         (Inr False, log (''Source path not found: '' @ sourcePath) ''warn'' s)"
  | (present) cmd where "existsSync E (world s) sourcePath"
      "push_command sourcePath (user @ ''/'' @ game @ '':'' @ channel) opts = Inr cmd"
      "pushChannel E user game channel sourcePath opts s =
         (Inr (fst (push_run E channel sourcePath cmd s)), snd (push_run E channel sourcePath cmd s))"
  using assms pushChannel_missing pushChannel_present push_command_ok by metis

lemma push_loop_results:
  assumes "opt_ignore opts \<noteq> IgnoreOther"
  shows "fst (push_loop E user game opts channels s) = None \<and>
         map fst (results (snd (push_loop E user game opts channels s))) =
           map fst (results s) @ map fst channels"
proof (induction channels arbitrary: s)
  case Nil
  then show ?case by simp
next
  case (Cons a channels)
  obtain channel sourcePath where a: "a = (channel, sourcePath)" by (cases a)
  from assms show ?case
  proof (cases rule: pushChannel_cases[of opts E s sourcePath user game channel])
    case missing
    then show ?thesis using Cons.IH a by simp
  next
    case (present cmd)
    then show ?thesis using Cons.IH a by (simp add: push_run_fields)
  qed
qed

lemma the_push_command_eq:
  "push_command sourcePath (user @ ''/'' @ game @ '':'' @ channel) opts = Inr cmd \<Longrightarrow>
   the_push_command user game channel sourcePath opts = cmd"
  by (simp add: the_push_command_def)

lemma push_run_spec:
  "execSync E (world s) cmd = (answer, w1) \<Longrightarrow>
   push_run E channel sourcePath cmd s =
     (succeeded (Transferred cmd answer),
      s\<lparr>world := w1, executed := executed s @ [cmd],
        console := console s @ spec_lines (channel, sourcePath, Transferred cmd answer)\<rparr>)"
  by (cases answer) (simp_all add: push_run_def run_def log_def)

lemma push_loop_spec:
  assumes "opt_ignore opts \<noteq> IgnoreOther"
  shows "push_loop E user game opts channels s =
           (None, s\<lparr>world := snd (spec_publish E user game opts channels (world s)),
                    executed := executed s @
                      concat (map spec_commands (fst (spec_publish E user game opts channels (world s)))),
                    console := console s @
                      concat (map spec_lines (fst (spec_publish E user game opts channels (world s)))),
                    results := results s @
                      map spec_outcome (fst (spec_publish E user game opts channels (world s)))\<rparr>)"
proof (induction channels arbitrary: s)
  case Nil
  then show ?case by simp
next
  case (Cons a channels)
  obtain channel sourcePath where a: "a = (channel, sourcePath)" by (cases a)
  show ?case
  proof (cases "existsSync E (world s) sourcePath")
    case False
    let ?s1 = "(log (''Source path not found: '' @ sourcePath) ''warn'' s)
                 \<lparr>results := results (log (''Source path not found: '' @ sourcePath) ''warn'' s)
                    @ [(channel, False)]\<rparr>"
    from Cons.IH[of ?s1] False a show ?thesis
      by (simp add: pushChannel_missing log_def split: prod.splits)
  next
    case True
    from push_command_ok[OF assms] obtain cmd where
      c: "push_command sourcePath (user @ ''/'' @ game @ '':'' @ channel) opts = Inr cmd" by blast
    note tc = the_push_command_eq[OF c]
    obtain answer w1 where e: "execSync E (world s) cmd = (answer, w1)"
      by (cases "execSync E (world s) cmd")
    let ?s0 = "s\<lparr>world := w1, executed := executed s @ [cmd],
        console := console s @ spec_lines (channel, sourcePath, Transferred cmd answer)\<rparr>"
    let ?s1 = "?s0\<lparr>results := results ?s0 @ [(channel, succeeded (Transferred cmd answer))]\<rparr>"
    from Cons.IH[of ?s1] True a e tc show ?thesis
      by (simp add: pushChannel_present[OF True c] push_run_spec[OF e] split: prod.splits)
  qed
qed

lemma spec_publish_length:
  "length (fst (spec_publish E user game opts channels w)) = length channels"
  by (induction channels arbitrary: w) (auto simp: case_prod_beta)

lemma spec_publish_channels:
  "map fst (fst (spec_publish E user game opts channels w)) = map fst channels"
  by (induction channels arbitrary: w) (auto simp: case_prod_beta)

lemma spec_publish_append:
  "spec_publish E user game opts (xs @ ys) w =
     (fst (spec_publish E user game opts xs w) @
      fst (spec_publish E user game opts ys (snd (spec_publish E user game opts xs w))),
      snd (spec_publish E user game opts ys (snd (spec_publish E user game opts xs w))))"
  by (induction xs arbitrary: w) (auto simp: case_prod_beta)

lemma spec_publish_nth:
  assumes "i < length channels"
  shows "fst (spec_publish E user game opts channels w) ! i =
     (fst (channels ! i), snd (channels ! i),
      if \<not> existsSync E (snd (spec_publish E user game opts (take i channels) w)) (snd (channels ! i))
      then SourceMissing
      else Transferred (the_push_command user game (fst (channels ! i)) (snd (channels ! i)) opts)
             (fst (execSync E (snd (spec_publish E user game opts (take i channels) w))
                     (the_push_command user game (fst (channels ! i)) (snd (channels ! i)) opts))))"
proof -
  let ?w = "snd (spec_publish E user game opts (take i channels) w)"
  have ch: "channels = take i channels @ (channels ! i # drop (Suc i) channels)"
    using assms by (simp add: id_take_nth_drop[symmetric])
  have len: "length (fst (spec_publish E user game opts (take i channels) w)) = i"
    using assms by (simp add: spec_publish_length)
  have "fst (spec_publish E user game opts channels w) ! i =
        fst (spec_publish E user game opts (channels ! i # drop (Suc i) channels) ?w) ! 0"
    by (subst ch, subst spec_publish_append) (simp add: nth_append len)
  also have "\<dots> = (fst (channels ! i), snd (channels ! i),
      if \<not> existsSync E ?w (snd (channels ! i)) then SourceMissing
      else Transferred (the_push_command user game (fst (channels ! i)) (snd (channels ! i)) opts)
             (fst (execSync E ?w
                     (the_push_command user game (fst (channels ! i)) (snd (channels ! i)) opts))))"
    by (cases "channels ! i") (auto simp: case_prod_beta)
  finally show ?thesis .
qed

lemma summary_spec:
  "summary s =
     s\<lparr>console := console s @ [(''plain'', []), (''info'', ''=== SUMMARY ==='')] @
                   map summary_line (results s)\<rparr>"
proof -
  have "fold (\<lambda>r. log (snd (summary_line r)) (fst (summary_line r))) rs s0 =
          s0\<lparr>console := console s0 @ map summary_line rs\<rparr>" for rs and s0 :: "'a pstate"
    by (induction rs arbitrary: s0) (simp_all add: log_def)
  then show ?thesis by (simp add: summary_def log_def)
qed

lemma checkStatus_spec:
  "checkStatus E user game s =
     s\<lparr>world := snd (execSync E (world s) (''butler status '' @ quoted (user @ ''/'' @ game))),
       executed := executed s @ [''butler status '' @ quoted (user @ ''/'' @ game)],
       console := console s @
         (''info'', ''Checking status for '' @ user @ ''/'' @ game @ ''...'') #
         (case fst (execSync E (world s) (''butler status '' @ quoted (user @ ''/'' @ game))) of
            Inl m \<Rightarrow> [(''warn'', ''Status check failed'')] | Inr out \<Rightarrow> [])\<rparr>"
  by (cases "execSync E (world s) (''butler status '' @ quoted (user @ ''/'' @ game))";
      cases "fst (execSync E (world s) (''butler status '' @ quoted (user @ ''/'' @ game)))")
     (simp_all add: checkStatus_def run_def log_def)

lemma checkButler_spec:
  "execSync E (world s) ''butler -v'' = (Inr version, w1) \<Longrightarrow>
   checkButler E s =
     (True, s\<lparr>world := w1, executed := executed s @ [''butler -v''],
              console := console s @ [(''success'', ''Butler version: '' @ trim version)]\<rparr>)"
  by (simp add: checkButler_def run_def log_def)

lemma publish_main_spec:
  assumes "2 < length argv" and "argv ! 2 \<noteq> []"
    and "existsSync E w (argv ! 2)" and "readConfig E w (argv ! 2) = Inr config"
    and "c_user config = Some user" and "user \<noteq> []"
    and "c_game config = Some game" and "game \<noteq> []"
    and "execSync E w ''butler -v'' = (Inr version, w1)"
    and "c_channels config \<noteq> []" and "c_ignore config \<noteq> IgnoreOther"
    and "opts = \<lparr>opt_version = c_version config, opt_ignore = c_ignore config,
                 opt_dryRun = arr_includes argv ''--dry-run''\<rparr>"
    and "spec_publish E user game opts (Object_entries (c_channels config)) w1 = (attempts, w2)"
  shows "publish_main E argv w =
     (Exit 0,
      \<lparr>world = snd (execSync E w2 (''butler status '' @ quoted (user @ ''/'' @ game))),
       executed = ''butler -v'' # concat (map spec_commands attempts) @
                  [''butler status '' @ quoted (user @ ''/'' @ game)],
       console = (''success'', ''Butler version: '' @ trim version) #
                 (if arr_includes argv ''--dry-run''
                  then [(''warn'', ''DRY RUN MODE - no actual uploads'')] else []) @
                 concat (map spec_lines attempts) @
                 [(''plain'', []), (''info'', ''=== SUMMARY ==='')] @
                 map summary_line (map spec_outcome attempts) @
                 (''info'', ''Checking status for '' @ user @ ''/'' @ game @ ''...'') #
                 (case fst (execSync E w2 (''butler status '' @ quoted (user @ ''/'' @ game))) of
                    Inl m \<Rightarrow> [(''warn'', ''Status check failed'')] | Inr out \<Rightarrow> []),
       results = map spec_outcome attempts\<rparr>)"
proof -
  let ?s = "\<lparr>world = w, executed = [], console = [], results = []\<rparr>"
  have b: "checkButler E ?s =
     (True, ?s\<lparr>world := w1, executed := executed ?s @ [''butler -v''],
              console := console ?s @ [(''success'', ''Butler version: '' @ trim version)]\<rparr>)"
    by (rule checkButler_spec) (simp add: assms(9))
  have i: "opt_ignore opts \<noteq> IgnoreOther" using assms(11,12) by simp
  have n: "Object_entries (c_channels config) \<noteq> []" using assms(10) by (simp add: Object_entries_def)
  note L = push_loop_spec[OF i, of E user game "Object_entries (c_channels config)"]
  show ?thesis
    using assms(1-8) n assms(12)[symmetric] assms(13)
    by (simp add: publish_main_def b L summary_spec checkStatus_spec log_def Let_def)
qed

lemma world_before_0: "world_before E user game opts channels w 0 = w"
  by (simp add: world_before_def)

lemma world_before_end:
  "world_before E user game opts channels w (length channels) =
     snd (spec_publish E user game opts channels w)"
  by (simp add: world_before_def)

lemma world_before_Suc:
  assumes "i < length channels"
  shows "world_before E user game opts channels w (Suc i) =
     (if \<not> existsSync E (world_before E user game opts channels w i) (snd (channels ! i))
      then world_before E user game opts channels w i
      else snd (execSync E (world_before E user game opts channels w i)
                  (the_push_command user game (fst (channels ! i)) (snd (channels ! i)) opts)))"
proof -
  have "take (Suc i) channels = take i channels @ [channels ! i]"
    using assms by (rule take_Suc_conv_app_nth)
  then show ?thesis
    unfolding world_before_def
    by (cases "channels ! i") (simp add: spec_publish_append case_prod_beta)
qed

lemma attempt_nth:
  assumes "i < length channels"
  shows "fst (spec_publish E user game opts channels w) ! i =
     (fst (channels ! i), snd (channels ! i),
      if \<not> existsSync E (world_before E user game opts channels w i) (snd (channels ! i))
      then SourceMissing
      else Transferred (the_push_command user game (fst (channels ! i)) (snd (channels ! i)) opts)
             (fst (execSync E (world_before E user game opts channels w i)
                     (the_push_command user game (fst (channels ! i)) (snd (channels ! i)) opts))))"
  unfolding world_before_def using assms by (rule spec_publish_nth)

lemma the_push_command_dry_run:
  assumes "opt_dryRun opts" and "opt_ignore opts \<noteq> IgnoreOther"
  shows "str_includes (the_push_command user game channel sourcePath opts) '' --dry-run''"
proof -
  from push_command_ok[OF assms(2)] obtain cmd where
    c: "push_command sourcePath (user @ ''/'' @ game @ '':'' @ channel) opts = Inr cmd" by blast
  from push_command_dry_run[OF assms(1) c] the_push_command_eq[OF c] show ?thesis by simp
qed

lemma spec_outcome_nth:
  assumes "i < length channels"
  shows "map spec_outcome (fst (spec_publish E user game opts channels w)) ! i =
     (fst (channels ! i),
      existsSync E (world_before E user game opts channels w i) (snd (channels ! i)) \<and>
      \<not> isl (fst (execSync E (world_before E user game opts channels w i)
                   (the_push_command user game (fst (channels ! i)) (snd (channels ! i)) opts))))"
proof -
  have "map spec_outcome (fst (spec_publish E user game opts channels w)) ! i =
        spec_outcome (fst (spec_publish E user game opts channels w) ! i)"
    using assms by (simp add: spec_publish_length)
  also have "\<dots> = (fst (channels ! i),
      existsSync E (world_before E user game opts channels w i) (snd (channels ! i)) \<and>
      \<not> isl (fst (execSync E (world_before E user game opts channels w i)
                   (the_push_command user game (fst (channels ! i)) (snd (channels ! i)) opts))))"
    unfolding attempt_nth[OF assms]
    by (cases "fst (execSync E (world_before E user game opts channels w i)
                   (the_push_command user game (fst (channels ! i)) (snd (channels ! i)) opts))")
       simp_all
  finally show ?thesis .
qed

text \<open>
  Claim C1. Take a run of \<open>main\<close> that reaches the loop: the configuration file is
  named, exists and parses, \<open>user\<close> and \<open>game\<close> are non-empty, \<open>butler -v\<close>
  returns, there is at least one channel. Let \<open>config.ignore\<close> be absent or an array
  of patterns. Then the loop never ends early, and the run is fixed target by target. Target
  number \<open>i\<close> of \<open>Object.entries(config.channels)\<close> is attempted in the world \<open>wb i\<close>
  that the targets before it have left, whatever their outcomes: its source path is tested
  there, and when the path exists its command \<open>cmd i\<close> is run there. The element number
  \<open>i\<close> of \<open>results\<close> is that channel, recorded as succeeded exactly when the path
  exists and the command returns; so a missing source path and a command that throws (the
  tool cannot be started, or exits non-zero) are each recorded as failed for that target
  alone. The commands run are \<open>butler -v\<close>, those of the attempts in order, and
  \<open>butler status\<close>. The console of the whole run holds the lines of the attempts and then
  the summary: one line per element of \<open>results\<close>, in order, so one line for every key of
  \<open>config.channels\<close> with its outcome. The process ends with exit code 0.
\<close>

theorem failure_isolation:
  assumes "2 < length argv" and "argv ! 2 \<noteq> []"
    and "existsSync E w (argv ! 2)" and "readConfig E w (argv ! 2) = Inr config"
    and "c_user config = Some user" and "user \<noteq> []"
    and "c_game config = Some game" and "game \<noteq> []"
    and "execSync E w ''butler -v'' = (Inr version, w1)"
    and "c_channels config \<noteq> []" and "c_ignore config \<noteq> IgnoreOther"
    and "opts = \<lparr>opt_version = c_version config, opt_ignore = c_ignore config,
                 opt_dryRun = arr_includes argv ''--dry-run''\<rparr>"
    and "channels = Object_entries (c_channels config)"
    and "wb = world_before E user game opts channels w1"
    and "cmd = (\<lambda>i. the_push_command user game (fst (channels ! i)) (snd (channels ! i)) opts)"
    and "spec_publish E user game opts channels w1 = (attempts, w2)"
  shows
    "fst (publish_main E argv w) = Exit 0 \<and>
     length attempts = length channels \<and>
     wb 0 = w1 \<and>
     (\<forall>i<length channels.
        attempts ! i =
          (fst (channels ! i), snd (channels ! i),
           if existsSync E (wb i) (snd (channels ! i))
           then Transferred (cmd i) (fst (execSync E (wb i) (cmd i))) else SourceMissing) \<and>
        wb (Suc i) = (if existsSync E (wb i) (snd (channels ! i))
                      then snd (execSync E (wb i) (cmd i)) else wb i) \<and>
        results (snd (publish_main E argv w)) ! i =
          (fst (channels ! i),
           existsSync E (wb i) (snd (channels ! i)) \<and> \<not> isl (fst (execSync E (wb i) (cmd i))))) \<and>
     results (snd (publish_main E argv w)) = map spec_outcome attempts \<and>
     map fst (results (snd (publish_main E argv w))) = Object_keys (c_channels config) \<and>
     executed (snd (publish_main E argv w)) =
       ''butler -v'' # concat (map spec_commands attempts) @
       [''butler status '' @ quoted (user @ ''/'' @ game)] \<and>
     console (snd (publish_main E argv w)) =
       (''success'', ''Butler version: '' @ trim version) #
       (if arr_includes argv ''--dry-run''
        then [(''warn'', ''DRY RUN MODE - no actual uploads'')] else []) @
       concat (map spec_lines attempts) @
       [(''plain'', []), (''info'', ''=== SUMMARY ==='')] @
       map summary_line (results (snd (publish_main E argv w))) @
       (''info'', ''Checking status for '' @ user @ ''/'' @ game @ ''...'') #
       (case fst (execSync E w2 (''butler status '' @ quoted (user @ ''/'' @ game))) of
          Inl m \<Rightarrow> [(''warn'', ''Status check failed'')] | Inr out \<Rightarrow> [])"
proof -
  note m = publish_main_spec[OF assms(1-12) assms(16)[unfolded assms(13)]]
  have a: "attempts = fst (spec_publish E user game opts channels w1)"
    using assms(16) by simp
  have k: "map fst (map spec_outcome attempts) = Object_keys (c_channels config)"
  proof -
    have "fst (spec_outcome x) = fst x" for x :: "string \<times> string \<times> attempt"
      by (cases x) simp
    then have "map fst (map spec_outcome attempts) = map fst attempts" by simp
    then show ?thesis
      unfolding a
      by (simp add: spec_publish_channels assms(13) Object_entries_def Object_keys_def)
  qed
  have r: "results (snd (publish_main E argv w)) = map spec_outcome attempts"
    by (simp add: m)
  show ?thesis
  proof (intro conjI allI impI)
    show "fst (publish_main E argv w) = Exit 0" by (simp add: m)
    show "length attempts = length channels" by (simp add: a spec_publish_length)
    show "wb 0 = w1" by (simp add: assms(14) world_before_0)
    show "results (snd (publish_main E argv w)) = map spec_outcome attempts" by (rule r)
    show "map fst (results (snd (publish_main E argv w))) = Object_keys (c_channels config)"
      unfolding r by (rule k)
    show "executed (snd (publish_main E argv w)) =
       ''butler -v'' # concat (map spec_commands attempts) @
       [''butler status '' @ quoted (user @ ''/'' @ game)]"
      by (simp add: m)
    show "console (snd (publish_main E argv w)) =
       (''success'', ''Butler version: '' @ trim version) #
       (if arr_includes argv ''--dry-run''
        then [(''warn'', ''DRY RUN MODE - no actual uploads'')] else []) @
       concat (map spec_lines attempts) @
       [(''plain'', []), (''info'', ''=== SUMMARY ==='')] @
       map summary_line (results (snd (publish_main E argv w))) @
       (''info'', ''Checking status for '' @ user @ ''/'' @ game @ ''...'') #
       (case fst (execSync E w2 (''butler status '' @ quoted (user @ ''/'' @ game))) of
          Inl m \<Rightarrow> [(''warn'', ''Status check failed'')] | Inr out \<Rightarrow> [])"
      unfolding r by (simp add: m)
  next
    fix i assume i: "i < length channels"
    show "attempts ! i =
          (fst (channels ! i), snd (channels ! i),
           if existsSync E (wb i) (snd (channels ! i))
           then Transferred (cmd i) (fst (execSync E (wb i) (cmd i))) else SourceMissing)"
      unfolding a assms(14,15) by (simp add: attempt_nth[OF i])
    show "wb (Suc i) = (if existsSync E (wb i) (snd (channels ! i))
                      then snd (execSync E (wb i) (cmd i)) else wb i)"
      unfolding assms(14,15) by (simp add: world_before_Suc[OF i])
    show "results (snd (publish_main E argv w)) ! i =
          (fst (channels ! i),
           existsSync E (wb i) (snd (channels ! i)) \<and> \<not> isl (fst (execSync E (wb i) (cmd i))))"
      unfolding r a assms(14,15) by (rule spec_outcome_nth[OF i])
  qed
qed

text \<open>
  A run over three channels: the source path of the first is missing, the command of the
  second fails, the third is pushed all the same, and the summary lists the three.
\<close>

theorem failure_isolation_witness:
  "2 < length [''node'', ''publish.js'', ''config.json''] \<and>
   existsSync (demo_env [''./build/mac''] [''linux'']) (0::nat) ''config.json'' \<and>
   readConfig (demo_env [''./build/mac''] [''linux'']) (0::nat) ''config.json'' = Inr demo_config \<and>
   execSync (demo_env [''./build/mac''] [''linux'']) (0::nat) ''butler -v'' = (Inr ''ok'', 1) \<and>
   c_channels demo_config =
     [(''osx'', ''./build/mac''), (''linux'', ''./build/linux''), (''html5'', ''./dist'')] \<and>
   c_ignore demo_config \<noteq> IgnoreOther \<and>
   spec_publish (demo_env [''./build/mac''] [''linux'']) ''alice'' ''mygame''
     \<lparr>opt_version = Some ''1.0.0'', opt_ignore = IgnoreArray [''*.map''], opt_dryRun = False\<rparr>
     [(''osx'', ''./build/mac''), (''linux'', ''./build/linux''), (''html5'', ''./dist'')] 1 =
     ([(''osx'', ''./build/mac'', SourceMissing),
       (''linux'', ''./build/linux'',
        Transferred (''butler push '' @ quoted ''./build/linux'' @ '' '' @ quoted ''alice/mygame:linux'' @
                       '' --userversion '' @ quoted ''1.0.0'' @ '' --ignore '' @ quoted ''*.map'')
          (Inl ''exit status 1'')),
       (''html5'', ''./dist'',
        Transferred (''butler push '' @ quoted ''./dist'' @ '' '' @ quoted ''alice/mygame:html5'' @
                       '' --userversion '' @ quoted ''1.0.0'' @ '' --ignore '' @ quoted ''*.map'')
          (Inr ''ok''))], 3) \<and>
   fst (publish_main (demo_env [''./build/mac''] [''linux''])
          [''node'', ''publish.js'', ''config.json''] 0) = Exit 0 \<and>
   results (snd (publish_main (demo_env [''./build/mac''] [''linux''])
          [''node'', ''publish.js'', ''config.json''] 0)) =
     [(''osx'', False), (''linux'', False), (''html5'', True)] \<and>
   console (snd (publish_main (demo_env [''./build/mac''] [''linux''])
          [''node'', ''publish.js'', ''config.json''] 0)) =
     [(''success'', ''Butler version: ok''),
      (''warn'', ''Source path not found: ./build/mac''),
      (''info'', ''Pushing linux from ./build/linux...''),
      (''error'', ''Failed to push linux: exit status 1''),
      (''info'', ''Pushing html5 from ./dist...''),
      (''success'', ''html5 uploaded successfully''),
      (''plain'', []),
      (''info'', ''=== SUMMARY ===''),
      (''error'', ''osx: FAILED''),
      (''error'', ''linux: FAILED''),
      (''success'', ''html5: OK''),
      (''info'', ''Checking status for alice/mygame...'')]"
proof -
  let ?E = "demo_env [''./build/mac''] [''linux'']"
  let ?argv = "[''node'', ''publish.js'', ''config.json'']"
  let ?O = "\<lparr>opt_version = Some ''1.0.0'', opt_ignore = IgnoreArray [''*.map''], opt_dryRun = False\<rparr>"
  let ?C = "[(''osx'', ''./build/mac''), (''linux'', ''./build/linux''), (''html5'', ''./dist'')]"
  let ?A = "[(''osx'', ''./build/mac'', SourceMissing),
       (''linux'', ''./build/linux'',
        Transferred (''butler push '' @ quoted ''./build/linux'' @ '' '' @ quoted ''alice/mygame:linux'' @
                       '' --userversion '' @ quoted ''1.0.0'' @ '' --ignore '' @ quoted ''*.map'')
          (Inl ''exit status 1'')),
       (''html5'', ''./dist'',
        Transferred (''butler push '' @ quoted ''./dist'' @ '' '' @ quoted ''alice/mygame:html5'' @
                       '' --userversion '' @ quoted ''1.0.0'' @ '' --ignore '' @ quoted ''*.map'')
          (Inr ''ok''))]"
  have h1: "2 < length ?argv" "?argv ! 2 \<noteq> []" by simp_all
  have h2: "existsSync ?E (0::nat) (?argv ! 2)" "readConfig ?E (0::nat) (?argv ! 2) = Inr demo_config"
    by (simp_all add: demo_env_def)
  have h3: "c_user demo_config = Some ''alice''" "''alice'' \<noteq> []"
    "c_game demo_config = Some ''mygame''" "''mygame'' \<noteq> []"
    by (simp_all add: demo_config_def)
  have h4: "execSync ?E (0::nat) ''butler -v'' = (Inr ''ok'', 1)"
    by (simp add: demo_env_def str_includes_def sublist_code)
  have h5: "c_channels demo_config \<noteq> []" "c_ignore demo_config \<noteq> IgnoreOther"
    "c_channels demo_config = ?C"
    by (simp_all add: demo_config_def)
  have h6: "?O = \<lparr>opt_version = c_version demo_config, opt_ignore = c_ignore demo_config,
                 opt_dryRun = arr_includes ?argv ''--dry-run''\<rparr>"
    by (simp add: demo_config_def arr_includes_def)
  have h7: "?C = Object_entries (c_channels demo_config)"
    by (simp add: demo_config_def Object_entries_def)
  have h8: "spec_publish ?E ''alice'' ''mygame'' ?O ?C 1 = (?A, 3)"
    by (simp add: demo_env_def the_push_command_def push_command_def Let_def quoted_def
        str_includes_def sublist_code)
  have t: "trim ''ok'' = ''ok''" by code_simp
  have s: "execSync ?E (3::nat) (''butler status '' @ quoted (''alice'' @ ''/'' @ ''mygame'')) = (Inr ''ok'', 4)"
    by (simp add: demo_env_def quoted_def str_includes_def sublist_code)
  from failure_isolation[OF h1 h2 h3 h4 h5(1,2) h6 h7 refl refl h8]
  have c: "fst (publish_main ?E ?argv 0) = Exit 0"
    "results (snd (publish_main ?E ?argv 0)) = map spec_outcome ?A"
    "console (snd (publish_main ?E ?argv 0)) =
       (''success'', ''Butler version: '' @ trim ''ok'') #
       (if arr_includes ?argv ''--dry-run''
        then [(''warn'', ''DRY RUN MODE - no actual uploads'')] else []) @
       concat (map spec_lines ?A) @
       [(''plain'', []), (''info'', ''=== SUMMARY ==='')] @
       map summary_line (results (snd (publish_main ?E ?argv 0))) @
       (''info'', ''Checking status for '' @ ''alice'' @ ''/'' @ ''mygame'' @ ''...'') #
       (case fst (execSync ?E 3 (''butler status '' @ quoted (''alice'' @ ''/'' @ ''mygame''))) of
          Inl m \<Rightarrow> [(''warn'', ''Status check failed'')] | Inr out \<Rightarrow> [])"
    by blast+
  have r: "results (snd (publish_main ?E ?argv 0)) =
     [(''osx'', False), (''linux'', False), (''html5'', True)]"
    unfolding c(2) by simp
  have k: "console (snd (publish_main ?E ?argv 0)) =
     [(''success'', ''Butler version: ok''),
      (''warn'', ''Source path not found: ./build/mac''),
      (''info'', ''Pushing linux from ./build/linux...''),
      (''error'', ''Failed to push linux: exit status 1''),
      (''info'', ''Pushing html5 from ./dist...''),
      (''success'', ''html5 uploaded successfully''),
      (''plain'', []),
      (''info'', ''=== SUMMARY ===''),
      (''error'', ''osx: FAILED''),
      (''error'', ''linux: FAILED''),
      (''success'', ''html5: OK''),
      (''info'', ''Checking status for alice/mygame...'')]"
    unfolding c(3) r s t by (simp add: arr_includes_def summary_line_def)
  from h1(1) h2 h4 h5(2,3) h8 c(1) r k show ?thesis by simp
qed

lemma concat_singletons:
  "concat (map (\<lambda>x. if p x then [g x] else []) xs) = map g (filter p xs)"
  by (induction xs) simp_all

lemma spec_commands_direct:
  "concat (map spec_commands (fst (spec_publish E user game opts channels w))) =
     map (\<lambda>i. the_push_command user game (fst (channels ! i)) (snd (channels ! i)) opts)
       (filter (\<lambda>i. existsSync E (world_before E user game opts channels w i) (snd (channels ! i)))
          [0..<length channels])"
proof -
  have "map spec_commands (fst (spec_publish E user game opts channels w)) =
        map (\<lambda>i. if existsSync E (world_before E user game opts channels w i) (snd (channels ! i))
                  then [the_push_command user game (fst (channels ! i)) (snd (channels ! i)) opts]
                  else []) [0..<length channels]"
    by (rule nth_equalityI) (simp_all add: spec_publish_length attempt_nth)
  then show ?thesis by (simp only: concat_singletons)
qed

lemma spec_outcome_direct:
  "map spec_outcome (fst (spec_publish E user game opts channels w)) =
     map (\<lambda>i. (fst (channels ! i),
                existsSync E (world_before E user game opts channels w i) (snd (channels ! i)) \<and>
                \<not> isl (fst (execSync E (world_before E user game opts channels w i)
                   (the_push_command user game (fst (channels ! i)) (snd (channels ! i)) opts)))))
       [0..<length channels]"
proof (rule nth_equalityI)
  show "length (map spec_outcome (fst (spec_publish E user game opts channels w))) =
        length (map (\<lambda>i. (fst (channels ! i),
                existsSync E (world_before E user game opts channels w i) (snd (channels ! i)) \<and>
                \<not> isl (fst (execSync E (world_before E user game opts channels w i)
                   (the_push_command user game (fst (channels ! i)) (snd (channels ! i)) opts)))))
       [0..<length channels])"
    by (simp add: spec_publish_length)
next
  fix i assume "i < length (map spec_outcome (fst (spec_publish E user game opts channels w)))"
  then have i: "i < length channels" by (simp add: spec_publish_length)
  show "map spec_outcome (fst (spec_publish E user game opts channels w)) ! i =
        map (\<lambda>i. (fst (channels ! i),
                existsSync E (world_before E user game opts channels w i) (snd (channels ! i)) \<and>
                \<not> isl (fst (execSync E (world_before E user game opts channels w i)
                   (the_push_command user game (fst (channels ! i)) (snd (channels ! i)) opts)))))
       [0..<length channels] ! i"
    using i by (simp add: spec_outcome_nth[OF i])
qed

text \<open>
  Claim C2, as the code has it. Take a run of \<open>main\<close> that reaches the loop, as in C1,
  with \<open>--dry-run\<close> among the arguments and \<open>config.ignore\<close> absent or an array of
  patterns. The flag does not keep anything from being executed: \<open>pushChannel\<close> appends
  \<open>--dry-run\<close> to the command and hands it to \<open>execSync\<close> as in any other run. The
  commands executed are \<open>butler -v\<close>, then the push command of every target whose
  source path exists when its turn comes, in order, each carrying \<open>--dry-run\<close>, none for
  a target whose source path is missing, then \<open>butler status\<close>. Each command is run in
  the world the commands before it have left, and the world after the run is the one
  \<open>butler status\<close> leaves: what happens to remote state is up to the external tool. A
  target is recorded as succeeded exactly when its source path exists and its command
  returns; one whose source path is missing or whose command throws is recorded as failed.
\<close>

theorem dry_run_still_executes:
  assumes "2 < length argv" and "argv ! 2 \<noteq> []"
    and "existsSync E w (argv ! 2)" and "readConfig E w (argv ! 2) = Inr config"
    and "c_user config = Some user" and "user \<noteq> []"
    and "c_game config = Some game" and "game \<noteq> []"
    and "execSync E w ''butler -v'' = (Inr version, w1)"
    and "c_channels config \<noteq> []" and "c_ignore config \<noteq> IgnoreOther"
    and "arr_includes argv ''--dry-run''"
    and "opts = \<lparr>opt_version = c_version config, opt_ignore = c_ignore config, opt_dryRun = True\<rparr>"
    and "channels = Object_entries (c_channels config)"
    and "wb = world_before E user game opts channels w1"
    and "cmd = (\<lambda>i. the_push_command user game (fst (channels ! i)) (snd (channels ! i)) opts)"
    and "status = ''butler status '' @ quoted (user @ ''/'' @ game)"
  shows
    "executed (snd (publish_main E argv w)) =
       ''butler -v'' #
       map cmd (filter (\<lambda>i. existsSync E (wb i) (snd (channels ! i))) [0..<length channels]) @
       [status] \<and>
     (\<forall>i<length channels. str_includes (cmd i) '' --dry-run'') \<and>
     wb 0 = w1 \<and>
     (\<forall>i<length channels.
        wb (Suc i) = (if existsSync E (wb i) (snd (channels ! i))
                      then snd (execSync E (wb i) (cmd i)) else wb i)) \<and>
     world (snd (publish_main E argv w)) = snd (execSync E (wb (length channels)) status) \<and>
     results (snd (publish_main E argv w)) =
       map (\<lambda>i. (fst (channels ! i),
                  existsSync E (wb i) (snd (channels ! i)) \<and>
                  \<not> isl (fst (execSync E (wb i) (cmd i)))))
         [0..<length channels]"
proof -
  obtain attempts w2 where sp: "spec_publish E user game opts channels w1 = (attempts, w2)"
    by (cases "spec_publish E user game opts channels w1")
  have o: "opts = \<lparr>opt_version = c_version config, opt_ignore = c_ignore config,
                   opt_dryRun = arr_includes argv ''--dry-run''\<rparr>"
    using assms(12,13) by simp
  note m = publish_main_spec[OF assms(1-11) o sp[unfolded assms(14)]]
  have a: "attempts = fst (spec_publish E user game opts channels w1)"
    and e: "w2 = wb (length channels)"
    using sp by (simp_all add: assms(15) world_before_end)
  have d: "opt_dryRun opts" "opt_ignore opts \<noteq> IgnoreOther"
    using assms(11,13) by simp_all
  show ?thesis
  proof (intro conjI allI impI)
    show "executed (snd (publish_main E argv w)) =
       ''butler -v'' #
       map cmd (filter (\<lambda>i. existsSync E (wb i) (snd (channels ! i))) [0..<length channels]) @
       [status]"
      by (simp add: m a spec_commands_direct assms(15,16,17))
    show "wb 0 = w1" by (simp add: assms(15) world_before_0)
    show "world (snd (publish_main E argv w)) = snd (execSync E (wb (length channels)) status)"
      by (simp add: m e assms(17))
    show "results (snd (publish_main E argv w)) =
       map (\<lambda>i. (fst (channels ! i),
                  existsSync E (wb i) (snd (channels ! i)) \<and>
                  \<not> isl (fst (execSync E (wb i) (cmd i)))))
         [0..<length channels]"
      by (simp add: m a spec_outcome_direct assms(15,16))
  next
    fix i assume i: "i < length channels"
    show "str_includes (cmd i) '' --dry-run''"
      unfolding assms(16) by (rule the_push_command_dry_run[OF d])
    show "wb (Suc i) = (if existsSync E (wb i) (snd (channels ! i))
                      then snd (execSync E (wb i) (cmd i)) else wb i)"
      unfolding assms(15,16) by (simp add: world_before_Suc[OF i])
  qed
qed

text \<open>
  A run with \<open>--dry-run\<close> over three channels: two push commands are executed, the
  second fails, and the source path of the third channel is missing.
\<close>

theorem dry_run_still_executes_witness:
  "arr_includes [''node'', ''publish.js'', ''config.json'', ''--dry-run''] ''--dry-run'' \<and>
   existsSync (demo_env [''./dist''] [''linux'']) (0::nat) ''config.json'' \<and>
   readConfig (demo_env [''./dist''] [''linux'']) (0::nat) ''config.json'' = Inr demo_config \<and>
   execSync (demo_env [''./dist''] [''linux'']) (0::nat) ''butler -v'' = (Inr ''ok'', 1) \<and>
   c_channels demo_config =
     [(''osx'', ''./build/mac''), (''linux'', ''./build/linux''), (''html5'', ''./dist'')] \<and>
   c_ignore demo_config \<noteq> IgnoreOther \<and>
   executed (snd (publish_main (demo_env [''./dist''] [''linux''])
          [''node'', ''publish.js'', ''config.json'', ''--dry-run''] 0)) =
     [''butler -v'',
      ''butler push '' @ quoted ''./build/mac'' @ '' '' @ quoted ''alice/mygame:osx'' @
        '' --userversion '' @ quoted ''1.0.0'' @ '' --dry-run'' @ '' --ignore '' @ quoted ''*.map'',
      ''butler push '' @ quoted ''./build/linux'' @ '' '' @ quoted ''alice/mygame:linux'' @
        '' --userversion '' @ quoted ''1.0.0'' @ '' --dry-run'' @ '' --ignore '' @ quoted ''*.map'',
      ''butler status '' @ quoted ''alice/mygame''] \<and>
   world (snd (publish_main (demo_env [''./dist''] [''linux''])
          [''node'', ''publish.js'', ''config.json'', ''--dry-run''] 0)) = 4 \<and>
   results (snd (publish_main (demo_env [''./dist''] [''linux''])
          [''node'', ''publish.js'', ''config.json'', ''--dry-run''] 0)) =
     [(''osx'', True), (''linux'', False), (''html5'', False)]"
proof -
  let ?E = "demo_env [''./dist''] [''linux'']"
  let ?argv = "[''node'', ''publish.js'', ''config.json'', ''--dry-run'']"
  let ?O = "\<lparr>opt_version = Some ''1.0.0'', opt_ignore = IgnoreArray [''*.map''], opt_dryRun = True\<rparr>"
  let ?C = "[(''osx'', ''./build/mac''), (''linux'', ''./build/linux''), (''html5'', ''./dist'')]"
  let ?wb = "world_before ?E ''alice'' ''mygame'' ?O ?C 1"
  let ?cmd = "\<lambda>i. the_push_command ''alice'' ''mygame'' (fst (?C ! i)) (snd (?C ! i)) ?O"
  let ?status = "''butler status '' @ quoted (''alice'' @ ''/'' @ ''mygame'')"
  have h1: "2 < length ?argv" "?argv ! 2 \<noteq> []" by simp_all
  have h2: "existsSync ?E (0::nat) (?argv ! 2)" "readConfig ?E (0::nat) (?argv ! 2) = Inr demo_config"
    by (simp_all add: demo_env_def)
  have h3: "c_user demo_config = Some ''alice''" "''alice'' \<noteq> []"
    "c_game demo_config = Some ''mygame''" "''mygame'' \<noteq> []"
    by (simp_all add: demo_config_def)
  have h4: "execSync ?E (0::nat) ''butler -v'' = (Inr ''ok'', 1)"
    by (simp add: demo_env_def str_includes_def sublist_code)
  have h5: "c_channels demo_config \<noteq> []" "c_ignore demo_config \<noteq> IgnoreOther"
    "c_channels demo_config = ?C"
    by (simp_all add: demo_config_def)
  have h6: "arr_includes ?argv ''--dry-run''" by (simp add: arr_includes_def)
  have h7: "?O = \<lparr>opt_version = c_version demo_config, opt_ignore = c_ignore demo_config,
                 opt_dryRun = True\<rparr>"
    by (simp add: demo_config_def)
  have h8: "?C = Object_entries (c_channels demo_config)"
    by (simp add: demo_config_def Object_entries_def)
  have c0: "the_push_command ''alice'' ''mygame'' ''osx'' ''./build/mac'' ?O =
        ''butler push '' @ quoted ''./build/mac'' @ '' '' @ quoted ''alice/mygame:osx'' @
        '' --userversion '' @ quoted ''1.0.0'' @ '' --dry-run'' @ '' --ignore '' @ quoted ''*.map''"
    and c1: "the_push_command ''alice'' ''mygame'' ''linux'' ''./build/linux'' ?O =
        ''butler push '' @ quoted ''./build/linux'' @ '' '' @ quoted ''alice/mygame:linux'' @
        '' --userversion '' @ quoted ''1.0.0'' @ '' --dry-run'' @ '' --ignore '' @ quoted ''*.map''"
    by (simp_all add: the_push_command_def push_command_def Let_def quoted_def)
  have ws: "?wb 3 = 3"
    by (simp add: world_before_def demo_env_def numeral_3_eq_3)
  have ex: "existsSync ?E w p \<longleftrightarrow> p \<noteq> ''./dist''" for w :: nat and p
    by (simp add: demo_env_def)
  have an: "fst (execSync ?E w (the_push_command ''alice'' ''mygame'' ''osx'' ''./build/mac'' ?O)) =
              Inr ''ok''"
    "fst (execSync ?E w (the_push_command ''alice'' ''mygame'' ''linux'' ''./build/linux'' ?O)) =
       Inl ''exit status 1''"
    for w :: nat
    unfolding c0 c1 by (simp_all add: demo_env_def quoted_def str_includes_def sublist_code)
  have st: "snd (execSync ?E (3::nat) ?status) = 4" by (simp add: demo_env_def)
  from dry_run_still_executes[OF h1 h2 h3 h4 h5(1,2) h6 h7 h8 refl refl refl]
  have c: "executed (snd (publish_main ?E ?argv 0)) =
       ''butler -v'' #
       map ?cmd (filter (\<lambda>i. existsSync ?E (?wb i) (snd (?C ! i))) [0..<length ?C]) @ [?status]"
    "world (snd (publish_main ?E ?argv 0)) = snd (execSync ?E (?wb (length ?C)) ?status)"
    "results (snd (publish_main ?E ?argv 0)) =
       map (\<lambda>i. (fst (?C ! i),
                  existsSync ?E (?wb i) (snd (?C ! i)) \<and>
                  \<not> isl (fst (execSync ?E (?wb i) (?cmd i)))))
         [0..<length ?C]"
    by blast+
  have u: "[0..<length ?C] = [0, Suc 0, 2]" by (simp add: upt_rec)
  have x: "executed (snd (publish_main ?E ?argv 0)) =
     [''butler -v'',
      the_push_command ''alice'' ''mygame'' ''osx'' ''./build/mac'' ?O,
      the_push_command ''alice'' ''mygame'' ''linux'' ''./build/linux'' ?O, ?status]"
    unfolding c(1) u by (simp add: ex)
  have l: "length ?C = 3" by simp
  have y: "world (snd (publish_main ?E ?argv 0)) = 4"
    by (simp only: c(2) l ws st)
  have z: "results (snd (publish_main ?E ?argv 0)) =
     [(''osx'', True), (''linux'', False), (''html5'', False)]"
    unfolding c(3) u by (simp add: ex an)
  from h6 h2 h4 h5(2,3) x[unfolded c0 c1] y z show ?thesis by simp
qed

text \<open>
  Claim C2 as stated fails: in this run with \<open>--dry-run\<close> two \<open>butler push\<close> commands
  are executed (the world has counted four commands in all), and the channel whose source
  path is missing is recorded as failed.
\<close>

theorem dry_run_counterexample:
  "arr_includes [''node'', ''publish.js'', ''config.json'', ''--dry-run''] ''--dry-run'' \<and>
   fst (publish_main (demo_env [''./build/mac''] [])
          [''node'', ''publish.js'', ''config.json'', ''--dry-run''] 0) = Exit 0 \<and>
   executed (snd (publish_main (demo_env [''./build/mac''] [])
          [''node'', ''publish.js'', ''config.json'', ''--dry-run''] 0)) =
     [''butler -v'',
      ''butler push '' @ quoted ''./build/linux'' @ '' '' @ quoted ''alice/mygame:linux'' @
        '' --userversion '' @ quoted ''1.0.0'' @ '' --dry-run'' @ '' --ignore '' @ quoted ''*.map'',
      ''butler push '' @ quoted ''./dist'' @ '' '' @ quoted ''alice/mygame:html5'' @
        '' --userversion '' @ quoted ''1.0.0'' @ '' --dry-run'' @ '' --ignore '' @ quoted ''*.map'',
      ''butler status '' @ quoted ''alice/mygame''] \<and>
   world (snd (publish_main (demo_env [''./build/mac''] [])
          [''node'', ''publish.js'', ''config.json'', ''--dry-run''] 0)) = 4 \<and>
   results (snd (publish_main (demo_env [''./build/mac''] [])
          [''node'', ''publish.js'', ''config.json'', ''--dry-run''] 0)) =
     [(''osx'', False), (''linux'', True), (''html5'', True)]"
  by (simp add: publish_eval)

lemma checkButler_results: "results (snd (checkButler E s)) = results s"
  using run_fields(2)[of E "''butler -v''" False s]
  by (auto simp: checkButler_def split: prod.splits sum.splits)

lemma push_loop_IgnoreOther:
  assumes "opt_ignore opts = IgnoreOther"
  shows "list_all (\<lambda>r. \<not> snd r) (results s) \<Longrightarrow>
         list_all (\<lambda>r. \<not> snd r) (results (snd (push_loop E user game opts channels s)))"
proof (induction channels arbitrary: s)
  case Nil
  then show ?case by simp
next
  case (Cons a channels)
  obtain channel sourcePath where a: "a = (channel, sourcePath)" by (cases a)
  show ?case
  proof (cases "existsSync E (world s) sourcePath")
    case True
    with assms have "pushChannel E user game channel sourcePath opts s = (Inl NotAFunction, s)"
      by (simp add: pushChannel_def push_command_def Let_def)
    with Cons.prems a show ?thesis by simp
  next
    case False
    with Cons a show ?thesis by (simp add: pushChannel_missing)
  qed
qed

lemma push_loop_error:
  "fst (push_loop E user game opts channels s) = Some e \<Longrightarrow> opt_ignore opts = IgnoreOther"
  using push_loop_results[of opts E user game channels s] by force

lemma summary_results: "results (summary s) = results s"
proof -
  have "results (fold (\<lambda>r. log (snd (summary_line r)) (fst (summary_line r))) rs s0) = results s0"
    for rs and s0 :: "'a pstate"
    by (induction rs arbitrary: s0) simp_all
  then show ?thesis by (simp add: summary_def)
qed

lemma checkStatus_results: "results (checkStatus E user game s) = results s"
  using run_fields(2)[of E "''butler status '' @ quoted (user @ ''/'' @ game)" False
      "log (''Checking status for '' @ user @ ''/'' @ game @ ''...'') ''info'' s"]
  by (auto simp: checkStatus_def split: prod.splits sum.splits)

lemma publish_main_cases:
  "fst (publish_main E argv w) = Exit 0 \<or>
   list_all (\<lambda>r. \<not> snd r) (results (snd (publish_main E argv w)))"
proof -
  define s where "s = \<lparr>world = w, executed = [], console = [], results = []\<rparr>"
  define configPath where "configPath = (if 2 < length argv then Some (argv ! 2) else None)"
  have rs: "results s = []" by (simp add: s_def)
  note pm = publish_main_def[of E argv w, unfolded Let_def, folded s_def configPath_def]
  show ?thesis
  proof (cases "falsy configPath \<or> \<not> existsSync E (world s) (the configPath)")
    case True
    then show ?thesis unfolding pm using rs by auto
  next
    case c1: False
    show ?thesis
    proof (cases "readConfig E (world s) (the configPath)")
      case (Inl e)
      with c1 show ?thesis unfolding pm using rs by simp
    next
      case (Inr config)
      show ?thesis
      proof (cases "falsy (c_user config) \<or> falsy (c_game config)")
        case True
        with c1 Inr show ?thesis unfolding pm using rs by auto
      next
        case c2: False
        obtain b s1 where cb: "checkButler E s = (b, s1)" by (cases "checkButler E s")
        from checkButler_results[of E s] cb rs have rs1: "results s1 = []" by simp
        show ?thesis
        proof (cases b)
          case False
          with c1 Inr c2 cb rs1 show ?thesis unfolding pm by simp
        next
          case True
          define dryRun where "dryRun = arr_includes argv ''--dry-run''"
          define s2 where "s2 = (if dryRun then log ''DRY RUN MODE - no actual uploads'' ''warn'' s1 else s1)"
          define opts where "opts = \<lparr>opt_version = c_version config, opt_ignore = c_ignore config,
                                  opt_dryRun = dryRun\<rparr>"
          have rs2: "results s2 = []" using rs1 by (simp add: s2_def)
          show ?thesis
          proof (cases "length (Object_entries (c_channels config)) = 0")
            case e: True
            with c1 Inr c2 cb True rs2 show ?thesis
              unfolding pm by (simp add: s2_def dryRun_def)
          next
            case ne: False
            let ?l = "push_loop E (the (c_user config)) (the (c_game config)) opts
                        (Object_entries (c_channels config)) (s2\<lparr>results := []\<rparr>)"
            obtain r s3 where pl: "?l = (r, s3)" by (cases ?l)
            show ?thesis
            proof (cases r)
              case None
              with c1 Inr c2 cb True ne pl show ?thesis
                unfolding pm by (simp add: s2_def dryRun_def opts_def)
            next
              case (Some e)
              with pl have "fst ?l = Some e" by simp
              from push_loop_error[OF this] have "opt_ignore opts = IgnoreOther" .
              from push_loop_IgnoreOther[OF this, of "s2\<lparr>results := []\<rparr>" E
                  "the (c_user config)" "the (c_game config)" "Object_entries (c_channels config)"] pl
              have "list_all (\<lambda>r. \<not> snd r) (results s3)" by simp
              with c1 Inr c2 cb True ne pl Some show ?thesis
                unfolding pm by (simp add: s2_def dryRun_def opts_def)
            qed
          qed
        qed
      qed
    qed
  qed
qed

lemma publish_main_success_exit:
  assumes "list_ex snd (results (snd (publish_main E argv w)))"
  shows "fst (publish_main E argv w) = Exit 0"
  using publish_main_cases[of E argv w] assms
  by (auto simp: list_ex_iff list_all_iff)

text \<open>
  Claim C9. A run of \<open>publish.js\<close> whose \<open>results\<close> hold at least one success and at
  least one failure ends with the same exit code as a run in which every channel succeeded:
  both end with code 0.
\<close>

theorem partial_failure_exit_code:
  assumes "list_ex snd (results (snd (publish_main E1 argv1 w1)))"
    and "list_ex (\<lambda>r. \<not> snd r) (results (snd (publish_main E1 argv1 w1)))"
    and "results (snd (publish_main E2 argv2 w2)) \<noteq> []"
    and "list_all snd (results (snd (publish_main E2 argv2 w2)))"
  shows "exit_code (fst (publish_main E1 argv1 w1)) = exit_code (fst (publish_main E2 argv2 w2)) \<and>
         fst (publish_main E1 argv1 w1) = Exit 0 \<and> fst (publish_main E2 argv2 w2) = Exit 0"
proof -
  from assms(3,4) have "list_ex snd (results (snd (publish_main E2 argv2 w2)))"
    by (cases "results (snd (publish_main E2 argv2 w2))") auto
  from publish_main_success_exit[OF assms(1)] publish_main_success_exit[OF this]
  show ?thesis by simp
qed

theorem partial_failure_exit_code_witness:
  "results (snd (publish_main (demo_env [''./build/mac''] [''linux''])
      [''node'', ''publish.js'', ''config.json''] 0)) =
     [(''osx'', False), (''linux'', False), (''html5'', True)] \<and>
   results (snd (publish_main (demo_env [] []) [''node'', ''publish.js'', ''config.json''] 0)) =
     [(''osx'', True), (''linux'', True), (''html5'', True)] \<and>
   fst (publish_main (demo_env [''./build/mac''] [''linux''])
      [''node'', ''publish.js'', ''config.json''] 0) = Exit 0 \<and>
   fst (publish_main (demo_env [] []) [''node'', ''publish.js'', ''config.json''] 0) = Exit 0"
proof -
  let ?r1 = "publish_main (demo_env [''./build/mac''] [''linux''])
      [''node'', ''publish.js'', ''config.json''] 0"
  let ?r2 = "publish_main (demo_env [] []) [''node'', ''publish.js'', ''config.json''] 0"
  have a: "results (snd ?r1) = [(''osx'', False), (''linux'', False), (''html5'', True)]"
    by (simp add: publish_eval)
  have b: "results (snd ?r2) = [(''osx'', True), (''linux'', True), (''html5'', True)]"
    by (simp add: publish_eval)
  have h: "list_ex snd (results (snd ?r1))" "list_ex (\<lambda>r. \<not> snd r) (results (snd ?r1))"
    "results (snd ?r2) \<noteq> []" "list_all snd (results (snd ?r2))"
    unfolding a b by simp_all
  from partial_failure_exit_code[OF h] a b show ?thesis by blast
qed

end
